theory Spec2Isabelle
  imports Complex_Main "HOL-Library.List_Lexorder" "HOL-Library.Char_ord"
begin

section \<open>Data model\<close>

text \<open>
  The program keeps its data in seven MySQL tables and reaches them through
  \<^verbatim>\<open>database_manager.py\<close>. A table is modelled as the list of its rows, a row as a
  record of its columns, and a nullable column as an \<open>option\<close>. Python's \<^verbatim>\<open>Decimal\<close>
  and MySQL's \<^verbatim>\<open>DECIMAL\<close> are modelled as exact rationals: sums, differences and
  products are exact, no rounding to a column scale is modelled. The server-assigned
  timestamps (\<^verbatim>\<open>created_at\<close>, \<^verbatim>\<open>transaction_date\<close>) are left out.
\<close>

type_synonym decimal = rat

record user =
  user_id :: nat
  username :: string
  password :: string
  email :: "string option"
  role :: string

record account =
  account_id :: nat
  acc_user_id :: nat
  account_name :: string
  account_type :: string
  current_balance :: decimal
  acc_currency :: string

record portfolio =
  portfolio_id :: nat
  pf_user_id :: nat
  portfolio_name :: string
  pf_description :: "string option"

record asset_type =
  asset_type_id :: nat
  type_name :: string
  at_description :: "string option"

record asset =
  asset_id :: nat
  asset_name :: string
  unit_price :: decimal
  unit_type :: string

record investment =
  investment_id :: nat
  inv_user_id :: nat
  inv_portfolio_id :: nat
  inv_asset_category_id :: nat
  inv_asset_id :: nat
  investment_name :: string
  symbol :: "string option"
  initial_investment_amount :: decimal
  purchase_date :: string
  quantity :: decimal
  inv_currency :: string
  inv_notes :: "string option"

record transaction_row =
  transaction_id :: nat
  tx_user_id :: nat
  tx_account_id :: "nat option"
  tx_investment_id :: "nat option"
  tx_asset_id :: "nat option"
  transaction_type :: "string option"
  amount :: "decimal option"
  tx_quantity :: "decimal option"
  unit_price_at_transaction :: "decimal option"
  tx_description :: "string option"

text \<open>
  The database. \<open>found_rows\<close> is the connection's \<^verbatim>\<open>CLIENT_FOUND_ROWS\<close> flag, which
  decides whether \<^verbatim>\<open>cursor.rowcount\<close> of an \<^verbatim>\<open>UPDATE\<close> counts the rows matched or the
  rows changed. \<^verbatim>\<open>DB_CONFIG\<close> does not set it and the connector's default is not part of
  the repository, so it is a parameter of the model. So is \<open>collation\<close>, which gives a
  name its sort key under the collation of the name columns (\<^verbatim>\<open>ORDER BY\<close> compares the
  sort keys): the collation is set by the schema, which is not part of the repository.
\<close>

record store =
  users :: "user list"
  accounts :: "account list"
  portfolios :: "portfolio list"
  asset_types :: "asset_type list"
  assets :: "asset list"
  investments :: "investment list"
  transactions :: "transaction_row list"
  found_rows :: bool
  collation :: "string \<Rightarrow> string"

section \<open>Running one statement: \<^verbatim>\<open>execute_query\<close>\<close>

text \<open>
  Every call of \<^verbatim>\<open>execute_query\<close> opens a connection of its own, runs one statement
  and commits it. What the environment does to that call is a \<open>link\<close>:
  \<^item> \<open>Down\<close>: \<^verbatim>\<open>create_connection\<close> returns \<^verbatim>\<open>None\<close>, so \<^verbatim>\<open>execute_query\<close> returns \<^verbatim>\<open>None\<close>;
  \<^item> \<open>Faulty\<close>: the statement raises \<^verbatim>\<open>mysql.connector.Error\<close>; it is rolled back and
    the error is raised again;
  \<^item> \<open>Up\<close>: the statement runs and is committed.
  A Python result is a \<open>reply\<close>: \<open>Raised\<close> for the re-raised error, \<open>Returned None\<close>
  for \<^verbatim>\<open>None\<close>, \<open>Returned (Some v)\<close> for a value.
\<close>

datatype link = Up | Down | Faulty

datatype 'a reply = Raised | Returned 'a

definition execute_query ::
  "link \<Rightarrow> (store \<Rightarrow> 'a \<times> store) \<Rightarrow> store \<Rightarrow> 'a option reply \<times> store" where
  "execute_query l stmt s =
     (case l of
        Down \<Rightarrow> (Returned None, s)
      | Faulty \<Rightarrow> (Raised, s)
      | Up \<Rightarrow> (case stmt s of (r, s') \<Rightarrow> (Returned (Some r), s')))"

text \<open>
  \<^verbatim>\<open>UPDATE t SET ... WHERE p\<close>: the rows satisfying \<open>p\<close> are rewritten by \<open>f\<close>, and
  \<^verbatim>\<open>cursor.rowcount > 0\<close> is \<open>affected\<close>.
\<close>

definition update_where :: "('r \<Rightarrow> bool) \<Rightarrow> ('r \<Rightarrow> 'r) \<Rightarrow> 'r list \<Rightarrow> 'r list" where
  "update_where p f t = map (\<lambda>r. if p r then f r else r) t"

definition affected :: "bool \<Rightarrow> ('r \<Rightarrow> bool) \<Rightarrow> ('r \<Rightarrow> 'r) \<Rightarrow> 'r list \<Rightarrow> bool" where
  "affected fr p f t =
     (if fr then filter p t \<noteq> [] else filter (\<lambda>r. p r \<and> f r \<noteq> r) t \<noteq> [])"

text \<open>
  \<^verbatim>\<open>AUTO_INCREMENT\<close>: the key given to an inserted row is above every key in the
  table, and it is what \<^verbatim>\<open>cursor.lastrowid\<close> returns.
\<close>

definition next_id :: "nat list \<Rightarrow> nat" where
  "next_id ids = Suc (fold max ids 0)"

section \<open>Portfolios and investments: the optional-field updates\<close>

text \<open>
  \<^verbatim>\<open>update_portfolio\<close> and \<^verbatim>\<open>update_investment\<close> collect one assignment for each
  argument that is not \<^verbatim>\<open>None\<close>, return \<^verbatim>\<open>False\<close> at once when the list is empty, and
  otherwise run one \<^verbatim>\<open>UPDATE\<close> through \<^verbatim>\<open>execute_query\<close>.
\<close>

definition set_if :: "'v option \<Rightarrow> ('v \<Rightarrow> 'r \<Rightarrow> 'r) \<Rightarrow> ('r \<Rightarrow> 'r) list" where
  "set_if arg assign = (case arg of None \<Rightarrow> [] | Some v \<Rightarrow> [assign v])"

definition assign_all :: "('r \<Rightarrow> 'r) list \<Rightarrow> 'r \<Rightarrow> 'r" where
  "assign_all updates r = fold (\<lambda>g. g) updates r"

definition update_portfolio ::
  "link \<Rightarrow> nat \<Rightarrow> string option \<Rightarrow> string option \<Rightarrow> store \<Rightarrow> bool option reply \<times> store" where
  "update_portfolio l pid portfolio_name' description' s =
     (let updates =
            set_if portfolio_name' (\<lambda>v r. r\<lparr>portfolio_name := v\<rparr>)
          @ set_if description' (\<lambda>v r. r\<lparr>pf_description := Some v\<rparr>)
      in case updates of
           [] \<Rightarrow> (Returned (Some False), s)
         | _ # _ \<Rightarrow>
             execute_query l
               (\<lambda>s. (affected (found_rows s) (\<lambda>r. portfolio_id r = pid) (assign_all updates)
                        (portfolios s),
                     s\<lparr>portfolios :=
                         update_where (\<lambda>r. portfolio_id r = pid) (assign_all updates)
                           (portfolios s)\<rparr>)) s)"

definition update_investment ::
  "link \<Rightarrow> nat \<Rightarrow> string option \<Rightarrow> string option \<Rightarrow> decimal option \<Rightarrow> string option
     \<Rightarrow> decimal option \<Rightarrow> string option \<Rightarrow> string option \<Rightarrow> nat option \<Rightarrow> nat option
     \<Rightarrow> nat option \<Rightarrow> store \<Rightarrow> bool option reply \<times> store" where
  "update_investment l iid investment_name' symbol' initial_investment_amount'
       purchase_date' quantity' currency' notes' portfolio_id' asset_category_id' asset_id' s =
     (let updates =
            set_if investment_name' (\<lambda>v r. r\<lparr>investment_name := v\<rparr>)
          @ set_if symbol' (\<lambda>v r. r\<lparr>symbol := Some v\<rparr>)
          @ set_if initial_investment_amount' (\<lambda>v r. r\<lparr>initial_investment_amount := v\<rparr>)
          @ set_if purchase_date' (\<lambda>v r. r\<lparr>purchase_date := v\<rparr>)
          @ set_if quantity' (\<lambda>v r. r\<lparr>quantity := v\<rparr>)
          @ set_if currency' (\<lambda>v r. r\<lparr>inv_currency := v\<rparr>)
          @ set_if notes' (\<lambda>v r. r\<lparr>inv_notes := Some v\<rparr>)
          @ set_if portfolio_id' (\<lambda>v r. r\<lparr>inv_portfolio_id := v\<rparr>)
          @ set_if asset_category_id' (\<lambda>v r. r\<lparr>inv_asset_category_id := v\<rparr>)
          @ set_if asset_id' (\<lambda>v r. r\<lparr>inv_asset_id := v\<rparr>)
      in case updates of
           [] \<Rightarrow> (Returned (Some False), s)
         | _ # _ \<Rightarrow>
             execute_query l
               (\<lambda>s. (affected (found_rows s) (\<lambda>r. investment_id r = iid) (assign_all updates)
                        (investments s),
                     s\<lparr>investments :=
                         update_where (\<lambda>r. investment_id r = iid) (assign_all updates)
                           (investments s)\<rparr>)) s)"

section \<open>Accounts, assets, investments and transactions\<close>

text \<open>
  The reads behind the tables of a page. A \<^verbatim>\<open>SELECT\<close> leaves the store as it is; the
  rows come in the order of the table unless the query orders them, and rows with equal
  sort keys keep the order of the table. \<^verbatim>\<open>get_all_accounts\<close> joins each account with
  its user and adds the user's name as a column, which the account rows of the model
  do not carry.
\<close>

definition get_accounts_by_user :: "link \<Rightarrow> nat \<Rightarrow> store \<Rightarrow> account list option reply" where
  "get_accounts_by_user l uid s =
     fst (execute_query l (\<lambda>s. (filter (\<lambda>r. acc_user_id r = uid) (accounts s), s)) s)"

definition get_all_accounts :: "link \<Rightarrow> store \<Rightarrow> account list option reply" where
  "get_all_accounts l s =
     fst (execute_query l
            (\<lambda>s. (concat (map (\<lambda>a. map (\<lambda>u. a)
                                  (filter (\<lambda>u. acc_user_id a = user_id u) (users s)))
                          (accounts s)), s)) s)"

definition get_portfolios_by_user :: "link \<Rightarrow> nat \<Rightarrow> store \<Rightarrow> portfolio list option reply" where
  "get_portfolios_by_user l uid s =
     fst (execute_query l (\<lambda>s. (filter (\<lambda>r. pf_user_id r = uid) (portfolios s), s)) s)"

definition get_asset_types :: "link \<Rightarrow> store \<Rightarrow> asset_type list option reply" where
  "get_asset_types l s =
     fst (execute_query l
            (\<lambda>s. (sort_key (\<lambda>r. collation s (type_name r)) (asset_types s), s)) s)"

definition get_all_assets :: "link \<Rightarrow> store \<Rightarrow> asset list option reply" where
  "get_all_assets l s =
     fst (execute_query l
            (\<lambda>s. (sort_key (\<lambda>r. collation s (asset_name r)) (assets s), s)) s)"

text \<open>
  The \<^verbatim>\<open>_df\<close> functions turn what was fetched into a table of the page: \<^verbatim>\<open>None\<close> (no
  connection) and the empty list both give the empty table, an error is passed on.
  \<^verbatim>\<open>get_account_balances_df\<close> reads the accounts of all users when the user id is false.
\<close>

definition data_frame :: "'r list option reply \<Rightarrow> 'r list reply" where
  "data_frame fetched =
     (case fetched of
        Raised \<Rightarrow> Raised
      | Returned None \<Rightarrow> Returned []
      | Returned (Some rows) \<Rightarrow> Returned rows)"

definition get_account_balances_df :: "link \<Rightarrow> nat \<Rightarrow> store \<Rightarrow> account list reply" where
  "get_account_balances_df l uid s =
     data_frame (if uid \<noteq> 0 then get_accounts_by_user l uid s else get_all_accounts l s)"

definition get_portfolios_df :: "link \<Rightarrow> nat \<Rightarrow> store \<Rightarrow> portfolio list reply" where
  "get_portfolios_df l uid s = data_frame (get_portfolios_by_user l uid s)"

definition get_asset_types_df :: "link \<Rightarrow> store \<Rightarrow> asset_type list reply" where
  "get_asset_types_df l s = data_frame (get_asset_types l s)"

definition get_assets_df :: "link \<Rightarrow> store \<Rightarrow> asset list reply" where
  "get_assets_df l s = data_frame (get_all_assets l s)"

definition update_account_balance ::
  "link \<Rightarrow> nat \<Rightarrow> decimal \<Rightarrow> store \<Rightarrow> bool option reply \<times> store" where
  "update_account_balance l aid new_balance s =
     execute_query l
       (\<lambda>s. (affected (found_rows s) (\<lambda>r. account_id r = aid)
                (\<lambda>r. r\<lparr>current_balance := new_balance\<rparr>) (accounts s),
             s\<lparr>accounts :=
                 update_where (\<lambda>r. account_id r = aid)
                   (\<lambda>r. r\<lparr>current_balance := new_balance\<rparr>) (accounts s)\<rparr>)) s"

definition update_asset_price ::
  "link \<Rightarrow> nat \<Rightarrow> decimal \<Rightarrow> store \<Rightarrow> bool option reply \<times> store" where
  "update_asset_price l aid new_unit_price s =
     execute_query l
       (\<lambda>s. (affected (found_rows s) (\<lambda>r. asset_id r = aid)
                (\<lambda>r. r\<lparr>unit_price := new_unit_price\<rparr>) (assets s),
             s\<lparr>assets :=
                 update_where (\<lambda>r. asset_id r = aid)
                   (\<lambda>r. r\<lparr>unit_price := new_unit_price\<rparr>) (assets s)\<rparr>)) s"

definition add_investment ::
  "link \<Rightarrow> nat \<Rightarrow> nat \<Rightarrow> nat \<Rightarrow> nat \<Rightarrow> string \<Rightarrow> string option \<Rightarrow> decimal \<Rightarrow> string
     \<Rightarrow> decimal \<Rightarrow> string \<Rightarrow> string option \<Rightarrow> store \<Rightarrow> nat option reply \<times> store" where
  "add_investment l uid pid cid aid name smb initial date qty cur nts s =
     execute_query l
       (\<lambda>s. let lastrowid = next_id (map investment_id (investments s))
             in (lastrowid,
                 s\<lparr>investments := investments s @
                     [\<lparr>investment_id = lastrowid, inv_user_id = uid, inv_portfolio_id = pid,
                       inv_asset_category_id = cid, inv_asset_id = aid,
                       investment_name = name, symbol = smb,
                       initial_investment_amount = initial, purchase_date = date,
                       quantity = qty, inv_currency = cur, inv_notes = nts\<rparr>]\<rparr>)) s"

definition add_transaction ::
  "link \<Rightarrow> nat \<Rightarrow> nat option \<Rightarrow> nat option \<Rightarrow> nat option \<Rightarrow> string option
     \<Rightarrow> decimal option \<Rightarrow> decimal option \<Rightarrow> decimal option \<Rightarrow> string option
     \<Rightarrow> store \<Rightarrow> nat option reply \<times> store" where
  "add_transaction l uid acc_ref inv_ref asset_ref ty amt qty price descr s =
     execute_query l
       (\<lambda>s. let lastrowid = next_id (map transaction_id (transactions s))
             in (lastrowid,
                 s\<lparr>transactions := transactions s @
                     [\<lparr>transaction_id = lastrowid, tx_user_id = uid, tx_account_id = acc_ref,
                       tx_investment_id = inv_ref, tx_asset_id = asset_ref, transaction_type = ty,
                       amount = amt, tx_quantity = qty, unit_price_at_transaction = price,
                       tx_description = descr\<rparr>]\<rparr>)) s"

text \<open>
  \<^verbatim>\<open>get_investments_by_user\<close> joins each investment of the user with its portfolio,
  its category and its asset, and computes \<^verbatim>\<open>current_value\<close> in the query. An investment
  row has no column for it. SQL leaves the order of the rows open; the model lists them
  in the order of the investments table.
\<close>

record investment_view =
  iv_investment_id :: nat
  iv_user_id :: nat
  iv_portfolio_id :: nat
  iv_portfolio_name :: string
  iv_asset_category_id :: nat
  iv_asset_category_name :: string
  iv_asset_id :: nat
  iv_asset_name :: string
  iv_current_unit_price :: decimal
  iv_unit_type :: string
  iv_investment_name :: string
  iv_symbol :: "string option"
  iv_initial_investment_amount :: decimal
  iv_purchase_date :: string
  iv_quantity :: decimal
  iv_current_value :: decimal
  iv_currency :: string
  iv_notes :: "string option"

definition joined_row :: "investment \<Rightarrow> portfolio \<Rightarrow> asset_type \<Rightarrow> asset \<Rightarrow> investment_view" where
  "joined_row i p t a =
     \<lparr>iv_investment_id = investment_id i, iv_user_id = inv_user_id i,
      iv_portfolio_id = inv_portfolio_id i, iv_portfolio_name = portfolio_name p,
      iv_asset_category_id = inv_asset_category_id i, iv_asset_category_name = type_name t,
      iv_asset_id = inv_asset_id i, iv_asset_name = asset_name a,
      iv_current_unit_price = unit_price a, iv_unit_type = unit_type a,
      iv_investment_name = investment_name i, iv_symbol = symbol i,
      iv_initial_investment_amount = initial_investment_amount i,
      iv_purchase_date = purchase_date i, iv_quantity = quantity i,
      iv_current_value = quantity i * unit_price a,
      iv_currency = inv_currency i, iv_notes = inv_notes i\<rparr>"

definition select_investments_by_user :: "nat \<Rightarrow> store \<Rightarrow> investment_view list" where
  "select_investments_by_user uid s =
     concat (map (\<lambda>i.
       concat (map (\<lambda>p.
         concat (map (\<lambda>t.
           map (\<lambda>a. joined_row i p t a)
             (filter (\<lambda>a. inv_asset_id i = asset_id a) (assets s)))
           (filter (\<lambda>t. inv_asset_category_id i = asset_type_id t) (asset_types s))))
         (filter (\<lambda>p. inv_portfolio_id i = portfolio_id p) (portfolios s))))
       (filter (\<lambda>i. inv_user_id i = uid) (investments s)))"

definition get_investments_by_user ::
  "link \<Rightarrow> nat \<Rightarrow> store \<Rightarrow> investment_view list option reply" where
  "get_investments_by_user l uid s =
     fst (execute_query l (\<lambda>s. (select_investments_by_user uid s, s)) s)"

section \<open>The dashboard summary\<close>

text \<open>
  \<^verbatim>\<open>SELECT SUM(...)\<close> without \<^verbatim>\<open>GROUP BY\<close> returns one row; its value is \<^verbatim>\<open>NULL\<close> when
  no row was summed.
\<close>

definition sql_sum :: "decimal list \<Rightarrow> decimal option" where
  "sql_sum xs = (if xs = [] then None else Some (sum_list xs))"

record summary =
  total_account_balance :: decimal
  total_investment_value :: decimal
  total_portfolio_value :: decimal

definition or_zero :: "decimal option list option \<Rightarrow> decimal" where
  "or_zero fetched =
     (case fetched of
        None \<Rightarrow> 0
      | Some [] \<Rightarrow> 0
      | Some (None # _) \<Rightarrow> 0
      | Some (Some total_value # _) \<Rightarrow> total_value)"

definition get_portfolio_summary :: "link \<Rightarrow> link \<Rightarrow> nat \<Rightarrow> store \<Rightarrow> summary reply" where
  "get_portfolio_summary l1 l2 uid s =
     (case fst (execute_query l1
                 (\<lambda>s. ([sql_sum (map current_balance
                                   (filter (\<lambda>r. acc_user_id r = uid) (accounts s)))], s)) s) of
        Raised \<Rightarrow> Raised
      | Returned account_balances \<Rightarrow>
          (case fst (execute_query l2
                      (\<lambda>s. ([sql_sum (concat (map (\<lambda>i.
                                 map (\<lambda>a. quantity i * unit_price a)
                                   (filter (\<lambda>a. inv_asset_id i = asset_id a) (assets s)))
                                 (filter (\<lambda>i. inv_user_id i = uid) (investments s))))], s)) s) of
             Raised \<Rightarrow> Raised
           | Returned investment_values \<Rightarrow>
               Returned
                 \<lparr>total_account_balance = or_zero account_balances,
                  total_investment_value = or_zero investment_values,
                  total_portfolio_value = or_zero account_balances + or_zero investment_values\<rparr>))"

section \<open>Deleting a user\<close>

text \<open>
  \<^verbatim>\<open>delete_user_and_all_data\<close> runs five \<^verbatim>\<open>DELETE\<close> statements and a commit on one
  connection, inside one transaction. \<open>has_connection\<close> says whether \<^verbatim>\<open>create_connection\<close>
  gave a connection, \<open>raises k\<close> whether the \<open>k\<close>-th operation on it (the statements are
  0 to 4, the commit is 5) raises \<^verbatim>\<open>mysql.connector.Error\<close>. An error rolls the
  transaction back, so the store is the one the call started with; an error of
  \<^verbatim>\<open>start_transaction\<close> ends the call as an error of statement 0 does.
\<close>

fun run_statements ::
  "(nat \<Rightarrow> bool) \<Rightarrow> nat \<Rightarrow> (store \<Rightarrow> store) list \<Rightarrow> store \<Rightarrow> store option" where
  "run_statements raises k [] w = Some w"
| "run_statements raises k (st # sts) w =
     (if raises k then None else run_statements raises (Suc k) sts (st w))"

definition delete_user_and_all_data ::
  "bool \<Rightarrow> (nat \<Rightarrow> bool) \<Rightarrow> nat \<Rightarrow> store \<Rightarrow> bool reply \<times> store" where
  "delete_user_and_all_data has_connection raises uid s =
     (if \<not> has_connection then (Returned False, s)
      else
        case run_statements raises 0
               [\<lambda>w. w\<lparr>transactions := filter (\<lambda>r. tx_user_id r \<noteq> uid) (transactions w)\<rparr>,
                \<lambda>w. w\<lparr>investments := filter (\<lambda>r. inv_user_id r \<noteq> uid) (investments w)\<rparr>,
                \<lambda>w. w\<lparr>accounts := filter (\<lambda>r. acc_user_id r \<noteq> uid) (accounts w)\<rparr>,
                \<lambda>w. w\<lparr>portfolios := filter (\<lambda>r. pf_user_id r \<noteq> uid) (portfolios w)\<rparr>,
                \<lambda>w. w\<lparr>users := filter (\<lambda>r. user_id r \<noteq> uid) (users w)\<rparr>] s of
          None \<Rightarrow> (Raised, s)
        | Some w \<Rightarrow> if raises 5 then (Raised, s) else (Returned True, w))"

section \<open>Buying an asset\<close>

text \<open>
  \<^verbatim>\<open>buy_assets\<close> in \<^verbatim>\<open>app.py\<close> works on the tables in \<^verbatim>\<open>st.session_state\<close> and on the
  values of the form. For a logged-in user every run of the script calls \<^verbatim>\<open>load_data\<close>
  before it calls the function of the page, so the tables \<^verbatim>\<open>buy_assets\<close> sees were read
  in the same run. The session is a record of the user id and of the four tables that
  \<^verbatim>\<open>buy_assets\<close> reads; the form is a record of what the widgets return in the run in which
  the purchase is confirmed:
  \<^item> \<open>quantity_to_buy\<close> is \<^verbatim>\<open>Decimal(str(quantity_to_buy))\<close>, the decimal the float of the
    number input prints as, and \<open>quantity_text\<close> its rendering by \<^verbatim>\<open>:.4f\<close>;
  \<^item> \<open>new_investment_portfolio_name\<close> and \<open>new_investment_asset_category_name\<close> are what
    the two select boxes for a new holding return (\<^verbatim>\<open>None\<close> when they have no options);
  \<^item> \<open>today\<close> is \<^verbatim>\<open>pd.to_datetime('today').date()\<close>.
\<close>

record session =
  ss_user_id :: nat
  accounts_df :: "account list"
  portfolios_df :: "portfolio list"
  asset_types_df :: "asset_type list"
  assets_df :: "asset list"

text \<open>
  \<^verbatim>\<open>load_data\<close> overwrites the tables of the session with what it reads; \<open>load k\<close> is what
  the environment does to its \<open>k\<close>-th call of \<^verbatim>\<open>execute_query\<close>. Calls 0 to 3 read the
  accounts, the portfolios, the asset types and the assets. Four more calls follow for
  either role (for a user the investments, the transactions and the two sums of the
  summary; for an admin the users, accounts, investments and transactions of everybody);
  they fill entries that \<^verbatim>\<open>buy_assets\<close> does not read, and the model keeps of them that an
  error raised by one of them leaves \<^verbatim>\<open>load_data\<close>, as an error of the first four does.
\<close>

definition load_data :: "(nat \<Rightarrow> link) \<Rightarrow> nat \<Rightarrow> session \<Rightarrow> store \<Rightarrow> session reply" where
  "load_data load uid ss s =
     (case get_account_balances_df (load 0) uid s of
        Raised \<Rightarrow> Raised
      | Returned accounts' \<Rightarrow>
     (case get_portfolios_df (load 1) uid s of
        Raised \<Rightarrow> Raised
      | Returned portfolios' \<Rightarrow>
     (case get_asset_types_df (load 2) s of
        Raised \<Rightarrow> Raised
      | Returned asset_types' \<Rightarrow>
     (case get_assets_df (load 3) s of
        Raised \<Rightarrow> Raised
      | Returned assets' \<Rightarrow>
          if load 4 = Faulty \<or> load 5 = Faulty \<or> load 6 = Faulty \<or> load 7 = Faulty
          then Raised
          else Returned (ss\<lparr>accounts_df := accounts', portfolios_df := portfolios',
                            asset_types_df := asset_types', assets_df := assets'\<rparr>)))))"

record buy_form =
  selected_account_name :: string
  selected_asset_name :: string
  quantity_to_buy :: decimal
  quantity_text :: string
  new_investment_portfolio_name :: "string option"
  new_investment_asset_category_name :: "string option"
  today :: string

text \<open>
  What the page shows for one confirmed purchase. \<open>Script_Error\<close> is an exception
  outside the \<^verbatim>\<open>try\<close> block, \<open>Database_Error\<close> the branch \<^verbatim>\<open>except Error\<close>,
  \<open>Transaction_Failed\<close> the branch \<^verbatim>\<open>except Exception\<close> with what was raised.
  \<open>Insufficient_Balance\<close> carries the two amounts of its message, the amount needed and
  the amount in the account, as the message prints them.
\<close>

datatype failure =
    Failed_To_Update_Account_Balance
  | Failed_To_Update_Existing_Investment
  | Failed_To_Add_New_Investment
  | Failed_To_Log_Transaction
  | Type_Error
  | Index_Error

datatype buy_outcome =
    No_Assets_Available
  | No_Accounts_Available
  | Script_Error
  | Select_Account
  | Select_Asset
  | Quantity_Not_Positive
  | Insufficient_Balance decimal decimal
  | Select_Portfolio_And_Category
  | Database_Error
  | Transaction_Failed failure
  | Purchased

text \<open>
  A row picked in a table of the session by name: \<^verbatim>\<open>df[df[col] == name].iloc[0]\<close> raises
  \<^verbatim>\<open>IndexError\<close> when no row has the name (\<open>Missing\<close>); \<open>Unselected\<close> is the branch that
  picks nothing.
\<close>

datatype 'r pick = Unselected | Missing | Row 'r

definition iloc0 :: "'r list \<Rightarrow> 'r pick" where
  "iloc0 rows = (case rows of [] \<Rightarrow> Missing | r # _ \<Rightarrow> Row r)"

definition select_account :: "session \<Rightarrow> buy_form \<Rightarrow> account pick" where
  "select_account ss f =
     (if selected_account_name f \<noteq> ''None''
      then iloc0 (filter (\<lambda>r. account_name r = selected_account_name f) (accounts_df ss))
      else Unselected)"

definition select_asset :: "session \<Rightarrow> buy_form \<Rightarrow> asset pick" where
  "select_asset ss f =
     (if selected_asset_name f \<noteq> []
      then iloc0 (filter (\<lambda>r. asset_name r = selected_asset_name f) (assets_df ss))
      else Unselected)"

text \<open>
  An amount as the page prints it with \<^verbatim>\<open>:.2f\<close>: a \<^verbatim>\<open>Decimal\<close> rounded to two places,
  a tie going to the even cent (the rounding of the default decimal context).
\<close>

definition cents :: "decimal \<Rightarrow> decimal" where
  "cents x =
     (let y = x * 100; n = \<lfloor>y\<rfloor>; rest = y - of_int n
      in of_int (if rest < 1 / 2 then n
                 else if 1 / 2 < rest then n + 1
                 else if even n then n else n + 1) / 100)"

text \<open>Python's truth value of what \<^verbatim>\<open>execute_query\<close> returned, and of a selected name.\<close>

definition truthy :: "bool option \<Rightarrow> bool" where
  "truthy r = (r = Some True)"

definition assigned :: "nat option \<Rightarrow> bool" where
  "assigned r = (case r of None \<Rightarrow> False | Some k \<Rightarrow> k \<noteq> 0)"

definition chosen :: "string option \<Rightarrow> bool" where
  "chosen r = (case r of None \<Rightarrow> False | Some name \<Rightarrow> name \<noteq> [])"

text \<open>
  The \<^verbatim>\<open>try\<close> block, in the order of the source. \<open>net k\<close> is what the environment does
  to the \<open>k\<close>-th call of \<^verbatim>\<open>execute_query\<close> of the run: 0 is the debit, 1 the read of the
  user's investments, 2 the update or insert of the holding, 3 the transaction row.
  Step 3 of the source:
\<close>

definition log_transaction ::
  "(nat \<Rightarrow> link) \<Rightarrow> session \<Rightarrow> buy_form \<Rightarrow> account \<Rightarrow> asset \<Rightarrow> store \<Rightarrow> buy_outcome \<times> store" where
  "log_transaction net ss f acc a s =
     (case add_transaction (net 3) (ss_user_id ss) (Some (account_id acc)) None
             (Some (asset_id a)) (Some ''Buy'') (Some (quantity_to_buy f * unit_price a))
             (Some (quantity_to_buy f)) (Some (unit_price a))
             (Some (''Bought '' @ quantity_text f @ '' '' @ unit_type a @ '' of ''
                     @ asset_name a)) s of
        (Raised, s') \<Rightarrow> (Database_Error, s')
      | (Returned transaction_id', s') \<Rightarrow>
          if \<not> assigned transaction_id' then (Transaction_Failed Failed_To_Log_Transaction, s')
          else (Purchased, s'))"

text \<open>Step 2 of the source, followed by step 3.\<close>

definition upsert_holding ::
  "(nat \<Rightarrow> link) \<Rightarrow> session \<Rightarrow> buy_form \<Rightarrow> account \<Rightarrow> asset \<Rightarrow> store \<Rightarrow> buy_outcome \<times> store" where
  "upsert_holding net ss f acc a s =
     (case get_investments_by_user (net 1) (ss_user_id ss) s of
        Raised \<Rightarrow> (Database_Error, s)
      | Returned None \<Rightarrow> (Transaction_Failed Type_Error, s)
      | Returned (Some user_investments) \<Rightarrow>
          (case find (\<lambda>inv. iv_asset_id inv = asset_id a) user_investments of
             Some existing_investment \<Rightarrow>
               (case update_investment (net 2) (iv_investment_id existing_investment)
                       None None None None
                       (Some (iv_quantity existing_investment + quantity_to_buy f))
                       None None None None None s of
                  (Raised, s') \<Rightarrow> (Database_Error, s')
                | (Returned r, s') \<Rightarrow>
                    if \<not> truthy r
                    then (Transaction_Failed Failed_To_Update_Existing_Investment, s')
                    else log_transaction net ss f acc a s')
           | None \<Rightarrow>
               if chosen (new_investment_portfolio_name f)
                  \<and> chosen (new_investment_asset_category_name f)
               then
                 (case iloc0 (filter (\<lambda>r. Some (portfolio_name r)
                                            = new_investment_portfolio_name f)
                               (portfolios_df ss)) of
                    Row p \<Rightarrow>
                      (case iloc0 (filter (\<lambda>r. Some (type_name r)
                                                 = new_investment_asset_category_name f)
                                    (asset_types_df ss)) of
                         Row t \<Rightarrow>
                           (case add_investment (net 2) (ss_user_id ss) (portfolio_id p)
                                   (asset_type_id t) (asset_id a)
                                   (asset_name a @ '' Holdings'') None
                                   (quantity_to_buy f * unit_price a) (today f)
                                   (quantity_to_buy f) (acc_currency acc)
                                   (Some (''Initial purchase of '' @ asset_name a)) s of
                              (Raised, s') \<Rightarrow> (Database_Error, s')
                            | (Returned new_investment_id, s') \<Rightarrow>
                                if \<not> assigned new_investment_id
                                then (Transaction_Failed Failed_To_Add_New_Investment, s')
                                else log_transaction net ss f acc a s')
                       | _ \<Rightarrow> (Transaction_Failed Index_Error, s))
                  | _ \<Rightarrow> (Transaction_Failed Index_Error, s))
               else (Select_Portfolio_And_Category, s)))"

text \<open>Step 1 of the source, followed by steps 2 and 3.\<close>

definition purchase ::
  "(nat \<Rightarrow> link) \<Rightarrow> session \<Rightarrow> buy_form \<Rightarrow> account \<Rightarrow> asset \<Rightarrow> store \<Rightarrow> buy_outcome \<times> store" where
  "purchase net ss f acc a s =
     (case update_account_balance (net 0) (account_id acc)
             (current_balance acc - quantity_to_buy f * unit_price a) s of
        (Raised, s') \<Rightarrow> (Database_Error, s')
      | (Returned r, s') \<Rightarrow>
          if \<not> truthy r then (Transaction_Failed Failed_To_Update_Account_Balance, s')
          else upsert_holding net ss f acc a s')"

text \<open>
  The whole function, for a run in which the form was submitted. An unselected account
  or asset leaves its id \<^verbatim>\<open>None\<close> and its balance or price \<^verbatim>\<open>Decimal('0.00')\<close>; an id
  of 0 is as false as \<^verbatim>\<open>None\<close>. The reload of the session tables after a purchase
  (\<^verbatim>\<open>refresh_data\<close>, after the message of success) is not part of the model.
\<close>

definition buy_assets ::
  "(nat \<Rightarrow> link) \<Rightarrow> session \<Rightarrow> buy_form \<Rightarrow> store \<Rightarrow> buy_outcome \<times> store" where
  "buy_assets net ss f s =
     (if assets_df ss = [] then (No_Assets_Available, s)
      else if accounts_df ss = [] then (No_Accounts_Available, s)
      else
        case select_account ss f of
          Missing \<Rightarrow> (Script_Error, s)
        | Unselected \<Rightarrow>
            (case select_asset ss f of
               Missing \<Rightarrow> (Script_Error, s)
             | _ \<Rightarrow> (Select_Account, s))
        | Row acc \<Rightarrow>
            (case select_asset ss f of
               Missing \<Rightarrow> (Script_Error, s)
             | Unselected \<Rightarrow>
                 if account_id acc = 0 then (Select_Account, s) else (Select_Asset, s)
             | Row a \<Rightarrow>
                 if account_id acc = 0 then (Select_Account, s)
                 else if asset_id a = 0 then (Select_Asset, s)
                 else if quantity_to_buy f \<le> 0 then (Quantity_Not_Positive, s)
                 else if quantity_to_buy f * unit_price a > current_balance acc
                 then (Insufficient_Balance (cents (quantity_to_buy f * unit_price a))
                         (cents (current_balance acc)), s)
                 else purchase net ss f acc a s))"

text \<open>
  One run of the script for a logged-in user on the page Buy Assets, with the form
  submitted: \<^verbatim>\<open>load_data\<close> for the user of the session, then \<^verbatim>\<open>buy_assets\<close> on the tables
  just loaded. \<open>ss\<close> is the session as the run before left it. An error raised by
  \<^verbatim>\<open>load_data\<close> is not caught and ends the run before the page.
\<close>

definition buy_assets_page ::
  "(nat \<Rightarrow> link) \<Rightarrow> (nat \<Rightarrow> link) \<Rightarrow> session \<Rightarrow> buy_form \<Rightarrow> store
     \<Rightarrow> buy_outcome \<times> store" where
  "buy_assets_page load net ss f s =
     (case load_data load (ss_user_id ss) ss s of
        Raised \<Rightarrow> (Script_Error, s)
      | Returned loaded \<Rightarrow> buy_assets net loaded f s)"

section \<open>The valuation rules, in the words of the specification\<close>

text \<open>
  The specification defines \<open>currentValue(investment, asset)\<close> as the product of the
  held quantity and the asset's unit price, failing with \<open>DataIntegrityError\<close> when the
  asset is missing, and \<open>portfolioSummary(user)\<close> as the sum of the user's account
  balances, the sum of the current values of the user's investments, and the sum of the
  two. The asset of an investment is the row of the assets table with the investment's
  asset id. \<open>None\<close> stands for the \<open>DataIntegrityError\<close>. These definitions follow the
  specification and are compared with \<open>get_portfolio_summary\<close> below.
\<close>

definition currentValue :: "investment \<Rightarrow> asset option \<Rightarrow> decimal option" where
  "currentValue i referenced =
     (case referenced of None \<Rightarrow> None | Some a \<Rightarrow> Some (quantity i * unit_price a))"

fun sum_values :: "decimal option list \<Rightarrow> decimal option" where
  "sum_values [] = Some 0"
| "sum_values (v # vs) =
     (case v of
        None \<Rightarrow> None
      | Some x \<Rightarrow> (case sum_values vs of None \<Rightarrow> None | Some y \<Rightarrow> Some (x + y)))"

definition portfolioSummary :: "nat \<Rightarrow> store \<Rightarrow> summary option" where
  "portfolioSummary uid s =
     (let totalAccountBalance =
            sum_list (map current_balance (filter (\<lambda>r. acc_user_id r = uid) (accounts s)))
      in case sum_values
                (map (\<lambda>i. currentValue i
                             (find (\<lambda>a. asset_id a = inv_asset_id i) (assets s)))
                   (filter (\<lambda>i. inv_user_id i = uid) (investments s))) of
           None \<Rightarrow> None
         | Some totalInvestmentValue \<Rightarrow>
             Some \<lparr>total_account_balance = totalAccountBalance,
                   total_investment_value = totalInvestmentValue,
                   total_portfolio_value = totalAccountBalance + totalInvestmentValue\<rparr>)"

section \<open>The effects of a purchase, named\<close>

text \<open>
  The three writes of a purchase as functions on the store, for stating what a run has
  done: the debit of the selected account, the larger quantity of a holding found or the
  row of a new holding, and the transaction row.
\<close>

definition debited :: "account \<Rightarrow> asset \<Rightarrow> buy_form \<Rightarrow> store \<Rightarrow> store" where
  "debited acc a f s =
     s\<lparr>accounts := update_where (\<lambda>r. account_id r = account_id acc)
          (\<lambda>r. r\<lparr>current_balance := current_balance acc - quantity_to_buy f * unit_price a\<rparr>)
          (accounts s)\<rparr>"

definition incremented :: "investment_view \<Rightarrow> buy_form \<Rightarrow> store \<Rightarrow> store" where
  "incremented e f s =
     s\<lparr>investments := update_where (\<lambda>r. investment_id r = iv_investment_id e)
          (\<lambda>r. r\<lparr>quantity := iv_quantity e + quantity_to_buy f\<rparr>) (investments s)\<rparr>"

definition new_holding ::
  "session \<Rightarrow> buy_form \<Rightarrow> account \<Rightarrow> asset \<Rightarrow> portfolio \<Rightarrow> asset_type \<Rightarrow> store \<Rightarrow> investment" where
  "new_holding ss f acc a p t s =
     \<lparr>investment_id = next_id (map investment_id (investments s)),
      inv_user_id = ss_user_id ss, inv_portfolio_id = portfolio_id p,
      inv_asset_category_id = asset_type_id t, inv_asset_id = asset_id a,
      investment_name = asset_name a @ '' Holdings'', symbol = None,
      initial_investment_amount = quantity_to_buy f * unit_price a,
      purchase_date = today f,
      quantity = quantity_to_buy f, inv_currency = acc_currency acc,
      inv_notes = Some (''Initial purchase of '' @ asset_name a)\<rparr>"

definition buy_row :: "session \<Rightarrow> buy_form \<Rightarrow> account \<Rightarrow> asset \<Rightarrow> store \<Rightarrow> transaction_row" where
  "buy_row ss f acc a s =
     \<lparr>transaction_id = next_id (map transaction_id (transactions s)),
      tx_user_id = ss_user_id ss, tx_account_id = Some (account_id acc),
      tx_investment_id = None, tx_asset_id = Some (asset_id a),
      transaction_type = Some ''Buy'',
      amount = Some (quantity_to_buy f * unit_price a),
      tx_quantity = Some (quantity_to_buy f),
      unit_price_at_transaction = Some (unit_price a),
      tx_description = Some (''Bought '' @ quantity_text f @ '' '' @ unit_type a @ '' of ''
                     @ asset_name a)\<rparr>"

definition logged :: "session \<Rightarrow> buy_form \<Rightarrow> account \<Rightarrow> asset \<Rightarrow> store \<Rightarrow> store" where
  "logged ss f acc a s = s\<lparr>transactions := transactions s @ [buy_row ss f acc a s]\<rparr>"

text \<open>
  The outcomes that leave \<open>buy_assets\<close> before the \<^verbatim>\<open>try\<close> block: the two warnings, an
  exception while the form is read, and the four checks of a submitted form.
\<close>

definition rejected :: "buy_outcome \<Rightarrow> bool" where
  "rejected out =
     (case out of
        No_Assets_Available \<Rightarrow> True
      | No_Accounts_Available \<Rightarrow> True
      | Script_Error \<Rightarrow> True
      | Select_Account \<Rightarrow> True
      | Select_Asset \<Rightarrow> True
      | Quantity_Not_Positive \<Rightarrow> True
      | Insufficient_Balance required available \<Rightarrow> True
      | _ \<Rightarrow> False)"

section \<open>Scenarios\<close>

text \<open>
  Environments: every call reaches the database; the third call of a run (the update or
  insert of the holding) raises; no operation of a deletion raises.
\<close>

definition all_up :: "nat \<Rightarrow> link" where
  "all_up k = Up"

definition upsert_raises :: "nat \<Rightarrow> link" where
  "upsert_raises k = (if k = 2 then Faulty else Up)"

definition never_raises :: "nat \<Rightarrow> bool" where
  "never_raises k = False"

text \<open>
  The purchase scenario of the specification: user 1 has 1000.00 in an account and
  10 grams of gold in a portfolio, gold costs 70.00, and 5 grams are bought.
\<close>

definition gold :: asset where
  "gold = \<lparr>asset_id = 1, asset_name = ''Gold'', unit_price = 70, unit_type = ''grams''\<rparr>"

definition savings :: account where
  "savings = \<lparr>account_id = 1, acc_user_id = 1, account_name = ''Savings'',
              account_type = ''Savings'', current_balance = 1000, acc_currency = ''USD''\<rparr>"

definition growth :: portfolio where
  "growth = \<lparr>portfolio_id = 1, pf_user_id = 1, portfolio_name = ''Growth'',
             pf_description = None\<rparr>"

definition commodity :: asset_type where
  "commodity = \<lparr>asset_type_id = 1, type_name = ''Commodity'', at_description = None\<rparr>"

definition gold_holding :: investment where
  "gold_holding =
     \<lparr>investment_id = 1, inv_user_id = 1, inv_portfolio_id = 1, inv_asset_category_id = 1,
      inv_asset_id = 1, investment_name = ''Gold Holdings'', symbol = None,
      initial_investment_amount = 700, purchase_date = ''2024-01-01'', quantity = 10,
      inv_currency = ''USD'', inv_notes = None\<rparr>"

definition alice :: user where
  "alice = \<lparr>user_id = 1, username = ''alice'', password = ''x'', email = None,
            role = ''user''\<rparr>"

definition bob :: user where
  "bob = \<lparr>user_id = 2, username = ''bob'', password = ''y'', email = None, role = ''user''\<rparr>"

definition gold_store :: store where
  "gold_store =
     \<lparr>users = [alice, bob], accounts = [savings], portfolios = [growth],
      asset_types = [commodity], assets = [gold], investments = [gold_holding],
      transactions = [], found_rows = False, collation = (\<lambda>name. name)\<rparr>"

definition gold_session :: session where
  "gold_session =
     \<lparr>ss_user_id = 1, accounts_df = [savings], portfolios_df = [growth],
      asset_types_df = [commodity], assets_df = [gold]\<rparr>"

definition gold_form :: buy_form where
  "gold_form =
     \<lparr>selected_account_name = ''Savings'', selected_asset_name = ''Gold'',
      quantity_to_buy = 5, quantity_text = ''5.0000'',
      new_investment_portfolio_name = Some ''Growth'',
      new_investment_asset_category_name = Some ''Commodity'', today = ''2024-06-01''\<rparr>"

definition gold_purchase :: transaction_row where
  "gold_purchase =
     \<lparr>transaction_id = 1, tx_user_id = 1, tx_account_id = Some 1, tx_investment_id = None,
      tx_asset_id = Some 1, transaction_type = Some ''Buy'', amount = Some 350,
      tx_quantity = Some 5, unit_price_at_transaction = Some 70,
      tx_description = Some ''Bought 5.0000 grams of Gold''\<rparr>"

text \<open>
  The same user before the first portfolio exists: no portfolio, no holding, and the
  select box for the portfolio of a new holding has nothing to offer.
\<close>

definition newcomer_store :: store where
  "newcomer_store =
     \<lparr>users = [alice], accounts = [savings], portfolios = [],
      asset_types = [commodity], assets = [gold], investments = [],
      transactions = [], found_rows = False, collation = (\<lambda>name. name)\<rparr>"

definition newcomer_session :: session where
  "newcomer_session =
     \<lparr>ss_user_id = 1, accounts_df = [savings], portfolios_df = [],
      asset_types_df = [commodity], assets_df = [gold]\<rparr>"

definition newcomer_form :: buy_form where
  "newcomer_form =
     \<lparr>selected_account_name = ''Savings'', selected_asset_name = ''Gold'',
      quantity_to_buy = 5, quantity_text = ''5.0000'',
      new_investment_portfolio_name = None,
      new_investment_asset_category_name = Some ''Commodity'', today = ''2024-06-01''\<rparr>"

text \<open>The store of the purchase scenario after the price of gold was set to 75.00.\<close>

definition repriced_store :: store where
  "repriced_store = gold_store\<lparr>assets := [gold\<lparr>unit_price := 75\<rparr>]\<rparr>"

text \<open>
  The insufficient-funds scenario of the specification: 100.00 in the account, a unit
  price of 50.00, a quantity of 3.
\<close>

definition silver :: asset where
  "silver = \<lparr>asset_id = 2, asset_name = ''Silver'', unit_price = 50, unit_type = ''ounces''\<rparr>"

definition wallet :: account where
  "wallet = \<lparr>account_id = 2, acc_user_id = 2, account_name = ''Wallet'',
             account_type = ''Checking'', current_balance = 100, acc_currency = ''USD''\<rparr>"

definition wallet_store :: store where
  "wallet_store =
     \<lparr>users = [bob], accounts = [wallet], portfolios = [], asset_types = [],
      assets = [silver], investments = [], transactions = [], found_rows = True,
      collation = (\<lambda>name. name)\<rparr>"

definition wallet_session :: session where
  "wallet_session =
     \<lparr>ss_user_id = 2, accounts_df = [wallet], portfolios_df = [], asset_types_df = [],
      assets_df = [silver]\<rparr>"

definition wallet_form :: buy_form where
  "wallet_form =
     \<lparr>selected_account_name = ''Wallet'', selected_asset_name = ''Silver'',
      quantity_to_buy = 3, quantity_text = ''3.0000'',
      new_investment_portfolio_name = None,
      new_investment_asset_category_name = None, today = ''2024-06-01''\<rparr>"

text \<open>
  A request whose cost is not a whole number of cents: 100.00 in the account, a unit
  price of 70.1234 and a quantity of 1.5, which cost 105.1851.
\<close>

definition platinum :: asset where
  "platinum = \<lparr>asset_id = 3, asset_name = ''Platinum'', unit_price = 701234 / 10000,
               unit_type = ''grams''\<rparr>"

definition platinum_store :: store where
  "platinum_store = wallet_store\<lparr>assets := [platinum]\<rparr>"

definition platinum_form :: buy_form where
  "platinum_form =
     \<lparr>selected_account_name = ''Wallet'', selected_asset_name = ''Platinum'',
      quantity_to_buy = 3 / 2, quantity_text = ''1.5000'',
      new_investment_portfolio_name = None,
      new_investment_asset_category_name = None, today = ''2024-06-01''\<rparr>"

section \<open>Basic facts\<close>

lemma execute_query_Up [simp]:
  "execute_query Up stmt s = (Returned (Some (fst (stmt s))), snd (stmt s))"
  by (simp add: execute_query_def split: prod.splits)

lemma execute_query_Down [simp]: "execute_query Down stmt s = (Returned None, s)"
  by (simp add: execute_query_def)

lemma execute_query_Faulty [simp]: "execute_query Faulty stmt s = (Raised, s)"
  by (simp add: execute_query_def)

lemma assign_all_single [simp]: "assign_all [g] = g"
  by (rule ext) (simp add: assign_all_def)

lemma iloc0_Row: "iloc0 rows = Row r \<Longrightarrow> r \<in> set rows"
  by (cases rows) (auto simp: iloc0_def)

lemma find_SomeD: "find P xs = Some x \<Longrightarrow> x \<in> set xs \<and> P x"
  by (induction xs) (auto split: if_splits)

lemma distinct_keyD:
  "distinct (map k xs) \<Longrightarrow> x \<in> set xs \<Longrightarrow> y \<in> set xs \<Longrightarrow> k x = k y \<Longrightarrow> x = y"
  by (meson distinct_map inj_onD)

lemma update_where_keys: "map k (update_where p g t) = map k t" if "\<And>r. k (g r) = k r"
  using that by (simp add: update_where_def)

lemma rejected_simps [simp]:
  "rejected No_Assets_Available" "rejected No_Accounts_Available" "rejected Script_Error"
  "rejected Select_Account" "rejected Select_Asset" "rejected Quantity_Not_Positive"
  "rejected (Insufficient_Balance required available)"
  "\<not> rejected Select_Portfolio_And_Category" "\<not> rejected Database_Error"
  "\<not> rejected (Transaction_Failed why)" "\<not> rejected Purchased"
  by (simp_all add: rejected_def)

lemmas scenario_defs =
  all_up_def upsert_raises_def never_raises_def gold_def savings_def growth_def commodity_def
  gold_holding_def alice_def bob_def gold_store_def gold_session_def gold_form_def
  gold_purchase_def newcomer_store_def newcomer_session_def newcomer_form_def
  repriced_store_def silver_def wallet_def wallet_store_def
  wallet_session_def wallet_form_def platinum_def platinum_store_def platinum_form_def

lemmas buy_defs =
  buy_assets_def select_account_def select_asset_def iloc0_def purchase_def
  upsert_holding_def log_transaction_def update_account_balance_def update_investment_def
  add_investment_def add_transaction_def get_investments_by_user_def
  select_investments_by_user_def joined_row_def execute_query_def affected_def
  update_where_def set_if_def assign_all_def next_id_def truthy_def assigned_def chosen_def

section \<open>Nothing to update\<close>

text \<open>
  Claim C10. When every optional field argument of \<^verbatim>\<open>update_portfolio\<close>, or of
  \<^verbatim>\<open>update_investment\<close>, is \<^verbatim>\<open>None\<close>, the call returns \<^verbatim>\<open>False\<close> and the database is
  as it was. No statement is issued: the result is the same whatever the connection
  would have done, also where it would have been refused (\<open>Down\<close>) or would have raised
  (\<open>Faulty\<close>).
\<close>

theorem update_without_fields_is_noop:
  "update_portfolio l pid None None s = (Returned (Some False), s)
   \<and> update_investment l iid None None None None None None None None None None s
       = (Returned (Some False), s)"
  by (simp add: update_portfolio_def update_investment_def set_if_def)

section \<open>Deleting a user leaves no row of that user\<close>

lemma run_statements_all:
  "run_statements raises k sts w = Some w' \<Longrightarrow> w' = fold (\<lambda>st. st) sts w"
  by (induction sts arbitrary: k w) (auto split: if_splits)

text \<open>
  Claim C9. When \<^verbatim>\<open>delete_user_and_all_data\<close> returns \<^verbatim>\<open>True\<close> for user \<open>uid\<close>, each of
  the five tables with a \<^verbatim>\<open>user_id\<close> column is the table it was without the rows of
  \<open>uid\<close>: the user row, the accounts, portfolios, investments and transactions of \<open>uid\<close>
  are gone, the rows of other users are kept, and no row with that \<^verbatim>\<open>user_id\<close> is left.
  With a connection on which nothing raises, the call does return \<^verbatim>\<open>True\<close>.
\<close>

theorem delete_user_removes_every_row:
  "(delete_user_and_all_data c raises uid s = (Returned True, s') \<longrightarrow>
      users s' = filter (\<lambda>r. user_id r \<noteq> uid) (users s)
    \<and> accounts s' = filter (\<lambda>r. acc_user_id r \<noteq> uid) (accounts s)
    \<and> portfolios s' = filter (\<lambda>r. pf_user_id r \<noteq> uid) (portfolios s)
    \<and> investments s' = filter (\<lambda>r. inv_user_id r \<noteq> uid) (investments s)
    \<and> transactions s' = filter (\<lambda>r. tx_user_id r \<noteq> uid) (transactions s)
    \<and> uid \<notin> user_id ` set (users s')
    \<and> uid \<notin> acc_user_id ` set (accounts s')
    \<and> uid \<notin> pf_user_id ` set (portfolios s')
    \<and> uid \<notin> inv_user_id ` set (investments s')
    \<and> uid \<notin> tx_user_id ` set (transactions s'))
   \<and> fst (delete_user_and_all_data True never_raises uid s) = Returned True"
proof (intro conjI impI)
  assume run: "delete_user_and_all_data c raises uid s = (Returned True, s')"
  then obtain w where w: "run_statements raises 0
               [\<lambda>w. w\<lparr>transactions := filter (\<lambda>r. tx_user_id r \<noteq> uid) (transactions w)\<rparr>,
                \<lambda>w. w\<lparr>investments := filter (\<lambda>r. inv_user_id r \<noteq> uid) (investments w)\<rparr>,
                \<lambda>w. w\<lparr>accounts := filter (\<lambda>r. acc_user_id r \<noteq> uid) (accounts w)\<rparr>,
                \<lambda>w. w\<lparr>portfolios := filter (\<lambda>r. pf_user_id r \<noteq> uid) (portfolios w)\<rparr>,
                \<lambda>w. w\<lparr>users := filter (\<lambda>r. user_id r \<noteq> uid) (users w)\<rparr>] s = Some w"
    and "s' = w"
    by (auto simp: delete_user_and_all_data_def split: if_splits option.splits)
  from run_statements_all [OF w] \<open>s' = w\<close>
  have s': "s' = s\<lparr>transactions := filter (\<lambda>r. tx_user_id r \<noteq> uid) (transactions s),
                  investments := filter (\<lambda>r. inv_user_id r \<noteq> uid) (investments s),
                  accounts := filter (\<lambda>r. acc_user_id r \<noteq> uid) (accounts s),
                  portfolios := filter (\<lambda>r. pf_user_id r \<noteq> uid) (portfolios s),
                  users := filter (\<lambda>r. user_id r \<noteq> uid) (users s)\<rparr>"
    by simp
  show "users s' = filter (\<lambda>r. user_id r \<noteq> uid) (users s)" by (simp add: s')
  show "accounts s' = filter (\<lambda>r. acc_user_id r \<noteq> uid) (accounts s)" by (simp add: s')
  show "portfolios s' = filter (\<lambda>r. pf_user_id r \<noteq> uid) (portfolios s)" by (simp add: s')
  show "investments s' = filter (\<lambda>r. inv_user_id r \<noteq> uid) (investments s)"
    by (simp add: s')
  show "transactions s' = filter (\<lambda>r. tx_user_id r \<noteq> uid) (transactions s)"
    by (simp add: s')
  show "uid \<notin> user_id ` set (users s')" by (auto simp: s')
  show "uid \<notin> acc_user_id ` set (accounts s')" by (auto simp: s')
  show "uid \<notin> pf_user_id ` set (portfolios s')" by (auto simp: s')
  show "uid \<notin> inv_user_id ` set (investments s')" by (auto simp: s')
  show "uid \<notin> tx_user_id ` set (transactions s')" by (auto simp: s')
next
  show "fst (delete_user_and_all_data True never_raises uid s) = Returned True"
    by (simp add: delete_user_and_all_data_def never_raises_def)
qed

text \<open>
  Deleting user 1 from the purchase scenario: the account, the portfolio and the holding
  go with the user, user 2 stays.
\<close>

lemma delete_alice:
  "delete_user_and_all_data True never_raises 1 gold_store
     = (Returned True,
        gold_store\<lparr>users := [bob], accounts := [], portfolios := [], investments := []\<rparr>)"
  by (simp add: delete_user_and_all_data_def scenario_defs)

theorem delete_user_removes_every_row_witness:
  "delete_user_and_all_data True never_raises 1 gold_store
     = (Returned True,
        gold_store\<lparr>users := [bob], accounts := [], portfolios := [], investments := []\<rparr>)
   \<and> users (gold_store\<lparr>users := [bob], accounts := [], portfolios := [],
                        investments := []\<rparr>)
       = filter (\<lambda>r. user_id r \<noteq> 1) (users gold_store)
   \<and> 1 \<notin> user_id ` set (users (gold_store\<lparr>users := [bob], accounts := [],
                                   portfolios := [], investments := []\<rparr>))
   \<and> 1 \<notin> acc_user_id ` set (accounts (gold_store\<lparr>users := [bob], accounts := [],
                                   portfolios := [], investments := []\<rparr>))"
  using delete_alice
    delete_user_removes_every_row [of True never_raises 1 gold_store
      "gold_store\<lparr>users := [bob], accounts := [], portfolios := [], investments := []\<rparr>"]
  by blast

section \<open>The purchase never ends as a rejection\<close>

lemma log_transaction_not_rejected: "\<not> rejected (fst (log_transaction net ss f acc a s))"
  by (cases "net 3")
     (auto simp: log_transaction_def add_transaction_def Let_def split: if_splits)

lemma upsert_holding_not_rejected: "\<not> rejected (fst (upsert_holding net ss f acc a s))"
  by (cases "net 1"; cases "net 2")
     (auto simp: upsert_holding_def get_investments_by_user_def update_investment_def
           add_investment_def set_if_def Let_def log_transaction_not_rejected truthy_def
           split: if_splits option.splits pick.splits)

lemma purchase_not_rejected: "\<not> rejected (fst (purchase net ss f acc a s))"
  by (cases "net 0")
     (auto simp: purchase_def update_account_balance_def upsert_holding_not_rejected
           truthy_def split: if_splits)

section \<open>What \<^verbatim>\<open>load_data\<close> puts into the session\<close>

lemma load_data_tables:
  assumes "load_data load uid ss s = Returned loaded"
  shows "ss_user_id loaded = ss_user_id ss"
    and "set (accounts_df loaded) \<subseteq> set (accounts s)"
    and "set (assets_df loaded) \<subseteq> set (assets s)"
  using assms
  by (cases "load 0"; cases "load 1"; cases "load 2"; cases "load 3";
      auto simp: load_data_def get_account_balances_df_def get_portfolios_df_def
        get_asset_types_df_def get_assets_df_def data_frame_def get_accounts_by_user_def
        get_all_accounts_def get_portfolios_by_user_def get_asset_types_def
        get_all_assets_def split: if_splits)+

lemma load_data_overwrites:
  "load_data load uid (ss\<lparr>accounts_df := xs, portfolios_df := ps, asset_types_df := ts,
                            assets_df := ys\<rparr>) s
     = load_data load uid ss s"
  by (simp add: load_data_def split: reply.splits)

lemma select_account_Row:
  "select_account ss f = Row acc \<Longrightarrow>
     acc \<in> set (accounts_df ss) \<and> account_name acc = selected_account_name f"
  by (auto simp: select_account_def split: if_splits dest: iloc0_Row)

lemma select_asset_Row:
  "select_asset ss f = Row a \<Longrightarrow>
     a \<in> set (assets_df ss) \<and> asset_name a = selected_asset_name f"
  by (auto simp: select_asset_def split: if_splits dest: iloc0_Row)

lemma buy_assets_Insufficient:
  assumes "buy_assets net ss f s = (Insufficient_Balance required available, s')"
  shows "\<exists>acc a. select_account ss f = Row acc \<and> select_asset ss f = Row a
           \<and> current_balance acc < quantity_to_buy f * unit_price a
           \<and> required = cents (quantity_to_buy f * unit_price a)
           \<and> available = cents (current_balance acc) \<and> s' = s"
proof -
  have "purchase net ss f acc a s \<noteq> (Insufficient_Balance required available, s')" for acc a
    using purchase_not_rejected [of net ss f acc a s] by auto
  with assms show ?thesis
    by (auto simp: buy_assets_def split: if_splits pick.splits)
qed

text \<open>
  The sessions of the scenarios are the sessions \<^verbatim>\<open>load_data\<close> builds from their stores.
\<close>

lemma wallet_loaded:
  "load_data all_up (ss_user_id wallet_session) wallet_session wallet_store
     = Returned wallet_session"
  by (simp add: load_data_def get_account_balances_df_def get_portfolios_df_def
        get_asset_types_df_def get_assets_df_def data_frame_def get_accounts_by_user_def
        get_all_accounts_def get_portfolios_by_user_def get_asset_types_def
        get_all_assets_def scenario_defs)

lemma gold_loaded:
  "load_data all_up (ss_user_id gold_session) gold_session gold_store = Returned gold_session"
  by (simp add: load_data_def get_account_balances_df_def get_portfolios_df_def
        get_asset_types_df_def get_assets_df_def data_frame_def get_accounts_by_user_def
        get_all_accounts_def get_portfolios_by_user_def get_asset_types_def
        get_all_assets_def scenario_defs)

lemma newcomer_loaded:
  "load_data all_up (ss_user_id newcomer_session) newcomer_session newcomer_store
     = Returned newcomer_session"
  by (simp add: load_data_def get_account_balances_df_def get_portfolios_df_def
        get_asset_types_df_def get_assets_df_def data_frame_def get_accounts_by_user_def
        get_all_accounts_def get_portfolios_by_user_def get_asset_types_def
        get_all_assets_def scenario_defs)

section \<open>Amounts as the page prints them\<close>

lemma cents_whole: "cents (rat_of_int k / 100) = rat_of_int k / 100"
  by (simp add: cents_def Let_def)

lemma cents_examples:
  "cents 150 = 150" "cents 100 = 100" "cents (3 / 2 * (701234 / 10000)) = 10519 / 100"
  by code_simp+

section \<open>The funds check\<close>

lemma wallet_selection:
  "select_account wallet_session wallet_form = Row wallet"
  "select_asset wallet_session wallet_form = Row silver"
  "account_id wallet \<noteq> 0" "asset_id silver \<noteq> 0" "0 < quantity_to_buy wallet_form"
  by (simp_all add: select_account_def select_asset_def iloc0_def scenario_defs)

lemma gold_selection:
  "select_account gold_session gold_form = Row savings"
  "select_asset gold_session gold_form = Row gold"
  "account_id savings \<noteq> 0" "asset_id gold \<noteq> 0" "0 < quantity_to_buy gold_form"
  by (simp_all add: select_account_def select_asset_def iloc0_def scenario_defs)

text \<open>
  Claim C3, as the code has it. Take a run of the page in which \<^verbatim>\<open>load_data\<close> returns,
  an account and an asset are selected (their ids not 0) and the quantity is positive,
  so that the checks before the funds check pass. The account and the asset selected are
  rows of the store as the run read it. If quantity times unit price is greater than the
  balance, the run ends with the insufficient-balance error and the store is untouched;
  the error carries the total cost as the amount needed and the balance as the amount
  available, each rounded to the cent as \<^verbatim>\<open>:.2f\<close> prints it, which changes nothing for
  an amount that is a whole number of cents. If the total cost is at most the balance,
  the run goes on into the purchase and does not end with a rejection.
\<close>

theorem buy_rejects_insufficient_balance:
  assumes "load_data load (ss_user_id ss) ss s = Returned loaded"
    and "select_account loaded f = Row acc" and "select_asset loaded f = Row a"
    and "account_id acc \<noteq> 0" and "asset_id a \<noteq> 0" and "0 < quantity_to_buy f"
  shows "acc \<in> set (accounts s) \<and> a \<in> set (assets s)
       \<and> (quantity_to_buy f * unit_price a > current_balance acc \<longrightarrow>
            buy_assets_page load net ss f s
              = (Insufficient_Balance (cents (quantity_to_buy f * unit_price a))
                   (cents (current_balance acc)), s))
       \<and> (quantity_to_buy f * unit_price a \<le> current_balance acc \<longrightarrow>
            buy_assets_page load net ss f s = purchase net loaded f acc a s
          \<and> \<not> rejected (fst (buy_assets_page load net ss f s)))
       \<and> (\<forall>k. cents (rat_of_int k / 100) = rat_of_int k / 100)"
proof -
  from select_account_Row [OF assms(2)] load_data_tables(2) [OF assms(1)]
  have acc: "acc \<in> set (accounts s)" and "accounts_df loaded \<noteq> []" by auto
  moreover from select_asset_Row [OF assms(3)] load_data_tables(3) [OF assms(1)]
  have a: "a \<in> set (assets s)" and "assets_df loaded \<noteq> []" by auto
  ultimately show ?thesis
    using assms
    by (simp add: buy_assets_page_def buy_assets_def purchase_not_rejected cents_whole)
qed

text \<open>
  The scenario of the specification: balance 100.00, unit price 50.00, quantity 3. The
  request is rejected with 150.00 needed and 100.00 available, and the store, with the
  balance of 100.00, is as before. The purchase scenario (350.00 against 1000.00) passes
  the check.
\<close>

theorem buy_rejects_insufficient_balance_witness:
  "load_data all_up (ss_user_id wallet_session) wallet_session wallet_store
     = Returned wallet_session
   \<and> quantity_to_buy wallet_form * unit_price silver = 150
   \<and> current_balance wallet = 100
   \<and> buy_assets_page all_up all_up wallet_session wallet_form wallet_store
       = (Insufficient_Balance 150 100, wallet_store)
   \<and> map current_balance (accounts wallet_store) = [100]
   \<and> quantity_to_buy gold_form * unit_price gold \<le> current_balance savings
   \<and> \<not> rejected (fst (buy_assets_page all_up all_up gold_session gold_form gold_store))"
proof -
  have cost: "quantity_to_buy wallet_form * unit_price silver = 150"
    and bal: "current_balance wallet = 100"
    and stored: "map current_balance (accounts wallet_store) = [100]"
    and fits: "quantity_to_buy gold_form * unit_price gold \<le> current_balance savings"
    by (simp_all add: scenario_defs)
  from buy_rejects_insufficient_balance
         [OF wallet_loaded wallet_selection, of all_up] cost bal
  have "buy_assets_page all_up all_up wallet_session wallet_form wallet_store
          = (Insufficient_Balance 150 100, wallet_store)"
    by (simp add: cents_examples)
  moreover
  from buy_rejects_insufficient_balance [OF gold_loaded gold_selection, of all_up] fits
  have "\<not> rejected (fst (buy_assets_page all_up all_up gold_session gold_form gold_store))"
    by blast
  ultimately show ?thesis using cost bal stored fits wallet_loaded by blast
qed

text \<open>
  Claim C3 as stated fails where the cost is not a whole number of cents: 1.5 units at
  70.1234 cost 105.1851, more than the 100.00 of the account, and the error carries
  105.19 as the amount needed.
\<close>

lemma platinum_loaded:
  "load_data all_up (ss_user_id wallet_session) wallet_session platinum_store
     = Returned (wallet_session\<lparr>assets_df := [platinum]\<rparr>)"
  by (simp add: load_data_def get_account_balances_df_def get_portfolios_df_def
        get_asset_types_df_def get_assets_df_def data_frame_def get_accounts_by_user_def
        get_all_accounts_def get_portfolios_by_user_def get_asset_types_def
        get_all_assets_def scenario_defs)

theorem insufficient_balance_amounts_are_rounded:
  "quantity_to_buy platinum_form * unit_price platinum = 1051851 / 10000
   \<and> buy_assets_page all_up all_up wallet_session platinum_form platinum_store
       = (Insufficient_Balance (10519 / 100) 100, platinum_store)
   \<and> (10519 / 100 :: decimal) \<noteq> 1051851 / 10000"
proof -
  have cost: "quantity_to_buy platinum_form * unit_price platinum = 1051851 / 10000"
    by (simp add: scenario_defs)
  have shown: "cents (1051851 / 10000) = 10519 / 100" "cents 100 = 100"
    by code_simp+
  have "buy_assets_page all_up all_up wallet_session platinum_form platinum_store
       = buy_assets all_up (wallet_session\<lparr>assets_df := [platinum]\<rparr>) platinum_form
           platinum_store"
    by (simp add: buy_assets_page_def platinum_loaded)
  also have "\<dots> = (Insufficient_Balance (cents (1051851 / 10000)) (cents 100),
                    platinum_store)"
    by (simp add: buy_assets_def select_account_def select_asset_def iloc0_def
          scenario_defs)
  finally show ?thesis using cost shown by simp
qed

section \<open>Valuation\<close>

lemma or_zero_sum [simp]: "or_zero (Some [sql_sum xs]) = sum_list xs"
  by (simp add: or_zero_def sql_sum_def)

lemma joined_value:
  assumes "distinct (map asset_id as)"
  shows "sum_list (map (\<lambda>a. q * unit_price a) (filter (\<lambda>a. k = asset_id a) as))
           = (case find (\<lambda>a. asset_id a = k) as of None \<Rightarrow> 0 | Some a \<Rightarrow> q * unit_price a)"
  using assms
proof (induction as)
  case Nil
  then show ?case by simp
next
  case (Cons x as)
  show ?case
  proof (cases "asset_id x = k")
    case True
    with Cons.prems have "filter (\<lambda>a. k = asset_id a) as = []"
      by (auto simp: filter_empty_conv)
    with True show ?thesis by simp
  next
    case False
    with Cons show ?thesis by auto
  qed
qed

lemma select_investments_origin:
  assumes "v \<in> set (select_investments_by_user uid s)"
  shows "\<exists>i\<in>set (investments s). \<exists>a\<in>set (assets s).
           inv_user_id i = uid \<and> investment_id i = iv_investment_id v
         \<and> quantity i = iv_quantity v \<and> inv_asset_id i = iv_asset_id v
         \<and> asset_id a = inv_asset_id i \<and> iv_current_unit_price v = unit_price a
         \<and> iv_current_value v = quantity i * unit_price a"
proof -
  from assms obtain i a where "i \<in> set (investments s)" "a \<in> set (assets s)"
    "inv_user_id i = uid" "inv_asset_id i = asset_id a"
    "\<exists>p t. v = joined_row i p t a"
    by (auto simp: select_investments_by_user_def)
  then show ?thesis by (auto simp: joined_row_def intro!: bexI [of _ i] bexI [of _ a])
qed

lemma or_zero_None [simp]: "or_zero None = 0"
  by (simp add: or_zero_def)

lemma joined_values_sum:
  assumes "distinct (map asset_id as)"
    and "sum_values (map (\<lambda>i. currentValue i (find (\<lambda>a. asset_id a = inv_asset_id i) as))
                      is) = Some v"
  shows "sum_list (concat (map (\<lambda>i. map (\<lambda>a. quantity i * unit_price a)
                                   (filter (\<lambda>a. inv_asset_id i = asset_id a) as)) is)) = v"
  using assms(2)
proof (induction "is" arbitrary: v)
  case Nil
  then show ?case by simp
next
  case (Cons i "is")
  then show ?case
    by (auto simp: joined_value [OF assms(1)] currentValue_def split: option.splits)
qed

text \<open>
  Claim C5, as the code has it. Let the asset ids of the assets table be distinct (it is
  the table's key) and let the summary of the specification exist for the user, that
  is, every investment of the user references an asset. \<^verbatim>\<open>get_portfolio_summary\<close> runs
  two queries. If one of them raises, so does the call. Otherwise the first component is
  the sum of the user's account balances when the first query reached the database and
  the decimal 0 when its connection was refused, the second component is the sum over
  the user's investments of quantity times the unit price of the asset referenced when
  the second query reached the database and the decimal 0 when its connection was
  refused, and the third component is the sum of the first and the second. A user
  without accounts has 0 as the first sum, a user without investments 0 as the second:
  the components are decimals, there is no null in a summary.
\<close>

theorem summary_is_sum_of_balances_and_values:
  assumes keys: "distinct (map asset_id (assets s))"
    and spec: "portfolioSummary uid s = Some sm"
  shows "get_portfolio_summary l1 l2 uid s =
           (if l1 = Faulty \<or> l2 = Faulty then Raised
            else Returned
                   \<lparr>total_account_balance =
                      (if l1 = Up then total_account_balance sm else 0),
                    total_investment_value =
                      (if l2 = Up then total_investment_value sm else 0),
                    total_portfolio_value =
                      (if l1 = Up then total_account_balance sm else 0)
                      + (if l2 = Up then total_investment_value sm else 0)\<rparr>)
       \<and> total_portfolio_value sm = total_account_balance sm + total_investment_value sm
       \<and> (filter (\<lambda>r. acc_user_id r = uid) (accounts s) = []
            \<longrightarrow> total_account_balance sm = 0)
       \<and> (filter (\<lambda>i. inv_user_id i = uid) (investments s) = []
            \<longrightarrow> total_investment_value sm = 0)"
proof -
  from spec obtain v where
    v: "sum_values (map (\<lambda>i. currentValue i
                               (find (\<lambda>a. asset_id a = inv_asset_id i) (assets s)))
                     (filter (\<lambda>i. inv_user_id i = uid) (investments s))) = Some v"
    and sm: "sm = \<lparr>total_account_balance =
                     sum_list (map current_balance
                                 (filter (\<lambda>r. acc_user_id r = uid) (accounts s))),
                   total_investment_value = v,
                   total_portfolio_value =
                     sum_list (map current_balance
                                 (filter (\<lambda>r. acc_user_id r = uid) (accounts s))) + v\<rparr>"
    by (auto simp: portfolioSummary_def Let_def split: option.splits)
  note joined = joined_values_sum [OF keys v]
  have code: "get_portfolio_summary l1 l2 uid s =
           (if l1 = Faulty \<or> l2 = Faulty then Raised
            else Returned
                   \<lparr>total_account_balance =
                      (if l1 = Up then total_account_balance sm else 0),
                    total_investment_value =
                      (if l2 = Up then total_investment_value sm else 0),
                    total_portfolio_value =
                      (if l1 = Up then total_account_balance sm else 0)
                      + (if l2 = Up then total_investment_value sm else 0)\<rparr>)"
    using joined
    by (cases l1; cases l2) (simp_all add: get_portfolio_summary_def sm)
  have empty: "filter (\<lambda>i. inv_user_id i = uid) (investments s) = []
                 \<Longrightarrow> total_investment_value sm = 0"
    using v by (simp add: sm)
  from code empty show ?thesis by (simp add: sm)
qed

text \<open>
  In the purchase scenario user 1 has 1000.00 and 10 grams of gold at 70.00: the summary
  is 1000, 700 and 1700, and 1000, 0 and 1000 when the connection of the second query is
  refused. User 2 owns nothing there: the summary is 0, 0 and 0.
\<close>

lemma gold_summary:
  "portfolioSummary 1 gold_store
     = Some \<lparr>total_account_balance = 1000, total_investment_value = 700,
             total_portfolio_value = 1700\<rparr>"
  "portfolioSummary 2 gold_store
     = Some \<lparr>total_account_balance = 0, total_investment_value = 0,
             total_portfolio_value = 0\<rparr>"
  "distinct (map asset_id (assets gold_store))"
  by (simp_all add: portfolioSummary_def currentValue_def scenario_defs)

theorem summary_is_sum_of_balances_and_values_witness:
  "distinct (map asset_id (assets gold_store))
   \<and> portfolioSummary 1 gold_store
       = Some \<lparr>total_account_balance = 1000, total_investment_value = 700,
               total_portfolio_value = 1700\<rparr>
   \<and> get_portfolio_summary Up Up 1 gold_store
       = Returned \<lparr>total_account_balance = 1000, total_investment_value = 700,
                   total_portfolio_value = 1700\<rparr>
   \<and> get_portfolio_summary Up Down 1 gold_store
       = Returned \<lparr>total_account_balance = 1000, total_investment_value = 0,
                   total_portfolio_value = 1000\<rparr>
   \<and> get_portfolio_summary Faulty Up 1 gold_store = Raised
   \<and> filter (\<lambda>r. acc_user_id r = 2) (accounts gold_store) = []
   \<and> filter (\<lambda>i. inv_user_id i = 2) (investments gold_store) = []
   \<and> get_portfolio_summary Up Up 2 gold_store
       = Returned \<lparr>total_account_balance = 0, total_investment_value = 0,
                   total_portfolio_value = 0\<rparr>"
proof -
  have none: "filter (\<lambda>r. acc_user_id r = 2) (accounts gold_store) = []"
    "filter (\<lambda>i. inv_user_id i = 2) (investments gold_store) = []"
    by (simp_all add: scenario_defs)
  from summary_is_sum_of_balances_and_values [OF gold_summary(3) gold_summary(1), of Up Up]
    summary_is_sum_of_balances_and_values [OF gold_summary(3) gold_summary(1), of Up Down]
    summary_is_sum_of_balances_and_values [OF gold_summary(3) gold_summary(1), of Faulty Up]
    summary_is_sum_of_balances_and_values [OF gold_summary(3) gold_summary(2), of Up Up]
    gold_summary none
  show ?thesis by simp
qed

text \<open>
  Claim C5 as stated fails when the connections are refused: the summary of user 1, who
  owns 1000.00 and 10 grams of gold at 70.00, is returned as 0, 0 and 0, with no error.
\<close>

theorem refused_connection_gives_zero_summary:
  "get_portfolio_summary Down Down 1 gold_store
     = Returned \<lparr>total_account_balance = 0, total_investment_value = 0,
                 total_portfolio_value = 0\<rparr>
   \<and> sum_list (map current_balance (filter (\<lambda>r. acc_user_id r = 1) (accounts gold_store)))
       = 1000
   \<and> map (\<lambda>i. quantity i) (filter (\<lambda>i. inv_user_id i = 1) (investments gold_store)) = [10]
   \<and> map unit_price (assets gold_store) = [70]"
  by (simp add: get_portfolio_summary_def scenario_defs)

text \<open>
  Claim C6. Every row that \<^verbatim>\<open>get_investments_by_user\<close> returns comes from an investment
  and the asset it references, and its current value is the quantity of that investment
  times the unit price of that asset as the assets table holds it when the read runs;
  an investment row has no column that could store the value. After
  \<^verbatim>\<open>update_asset_price\<close> has set the price of an asset to \<open>p\<close>, every row of the next
  read that references the asset shows the unit price \<open>p\<close> and the value quantity
  times \<open>p\<close>.
\<close>

theorem current_value_is_computed_at_read:
  assumes read: "get_investments_by_user l uid s = Returned (Some rows)"
    and upd: "update_asset_price Up aid p s = (r, s1)"
    and read1: "get_investments_by_user l1 uid s1 = Returned (Some rows1)"
  shows "(\<forall>v\<in>set rows. \<exists>i\<in>set (investments s). \<exists>a\<in>set (assets s).
             investment_id i = iv_investment_id v \<and> asset_id a = inv_asset_id i
           \<and> iv_current_value v = quantity i * unit_price a)
       \<and> (\<forall>v\<in>set rows1. iv_asset_id v = aid \<longrightarrow>
             iv_current_unit_price v = p \<and> iv_current_value v = iv_quantity v * p)"
proof (intro conjI ballI impI)
  fix v assume "v \<in> set rows"
  with read have "v \<in> set (select_investments_by_user uid s)"
    by (cases l) (auto simp: get_investments_by_user_def)
  from select_investments_origin [OF this]
  show "\<exists>i\<in>set (investments s). \<exists>a\<in>set (assets s).
             investment_id i = iv_investment_id v \<and> asset_id a = inv_asset_id i
           \<and> iv_current_value v = quantity i * unit_price a"
    by blast
next
  fix v assume v: "v \<in> set rows1" and aid: "iv_asset_id v = aid"
  from upd have s1: "s1 = s\<lparr>assets := update_where (\<lambda>r. asset_id r = aid)
                   (\<lambda>r. r\<lparr>unit_price := p\<rparr>) (assets s)\<rparr>"
    by (auto simp: update_asset_price_def)
  from v read1 have "v \<in> set (select_investments_by_user uid s1)"
    by (cases l1) (auto simp: get_investments_by_user_def)
  from select_investments_origin [OF this] obtain i :: investment and a where
    a: "a \<in> set (assets s1)"
    and ia: "inv_user_id i = uid \<and> investment_id i = iv_investment_id v
         \<and> quantity i = iv_quantity v \<and> inv_asset_id i = iv_asset_id v
         \<and> asset_id a = inv_asset_id i \<and> iv_current_unit_price v = unit_price a
         \<and> iv_current_value v = quantity i * unit_price a"
    by blast
  from a ia aid have "unit_price a = p"
    by (auto simp: s1 update_where_def split: if_splits)
  with ia show "iv_current_unit_price v = p" by simp
  from \<open>unit_price a = p\<close> ia show "iv_current_value v = iv_quantity v * p" by simp
qed

text \<open>
  The price update of the specification: the holding of 10 grams is worth 700 at 70.00
  and, read again after the price was set to 75.00, 750.
\<close>

lemma gold_reads:
  "map iv_current_value (select_investments_by_user 1 gold_store) = [700]"
  "update_asset_price Up 1 75 gold_store = (Returned (Some True), repriced_store)"
  "map iv_current_value (select_investments_by_user 1 repriced_store) = [750]"
  "map iv_asset_id (select_investments_by_user 1 repriced_store) = [1]"
  by (simp_all add: select_investments_by_user_def joined_row_def update_asset_price_def
        affected_def update_where_def scenario_defs)

theorem current_value_is_computed_at_read_witness:
  "get_investments_by_user Up 1 gold_store
     = Returned (Some (select_investments_by_user 1 gold_store))
   \<and> map iv_current_value (select_investments_by_user 1 gold_store) = [700]
   \<and> update_asset_price Up 1 75 gold_store = (Returned (Some True), repriced_store)
   \<and> get_investments_by_user Up 1 repriced_store
       = Returned (Some (select_investments_by_user 1 repriced_store))
   \<and> select_investments_by_user 1 repriced_store
       = [joined_row gold_holding growth commodity (gold\<lparr>unit_price := 75\<rparr>)]
   \<and> iv_current_unit_price (joined_row gold_holding growth commodity (gold\<lparr>unit_price := 75\<rparr>))
       = 75
   \<and> iv_current_value (joined_row gold_holding growth commodity (gold\<lparr>unit_price := 75\<rparr>))
       = iv_quantity (joined_row gold_holding growth commodity (gold\<lparr>unit_price := 75\<rparr>))
         * 75"
proof -
  have read: "get_investments_by_user Up 1 gold_store
                = Returned (Some (select_investments_by_user 1 gold_store))"
    and read1: "get_investments_by_user Up 1 repriced_store
                = Returned (Some (select_investments_by_user 1 repriced_store))"
    by (simp_all add: get_investments_by_user_def)
  have rows: "select_investments_by_user 1 repriced_store
                = [joined_row gold_holding growth commodity (gold\<lparr>unit_price := 75\<rparr>)]"
    and asset: "iv_asset_id (joined_row gold_holding growth commodity
                                (gold\<lparr>unit_price := 75\<rparr>)) = 1"
    by (simp_all add: select_investments_by_user_def joined_row_def scenario_defs)
  from current_value_is_computed_at_read [OF read gold_reads(2) read1]
  have "\<forall>v\<in>set (select_investments_by_user 1 repriced_store). iv_asset_id v = 1 \<longrightarrow>
          iv_current_unit_price v = 75 \<and> iv_current_value v = iv_quantity v * 75"
    by blast
  with rows asset
  have "iv_current_unit_price (joined_row gold_holding growth commodity
                                 (gold\<lparr>unit_price := 75\<rparr>)) = 75
      \<and> iv_current_value (joined_row gold_holding growth commodity
                             (gold\<lparr>unit_price := 75\<rparr>))
          = iv_quantity (joined_row gold_holding growth commodity
                           (gold\<lparr>unit_price := 75\<rparr>)) * 75"
    by simp
  with read read1 rows gold_reads show ?thesis by blast
qed

section \<open>What a successful purchase has written\<close>

lemma log_transaction_Purchased:
  assumes "log_transaction net ss f acc a s = (Purchased, s')"
  shows "s' = logged ss f acc a s"
  using assms
  by (cases "net 3")
     (auto simp: log_transaction_def add_transaction_def buy_row_def Let_def assigned_def
           logged_def split: if_splits)

lemma select_investments_accounts [simp]:
  "select_investments_by_user uid (s\<lparr>accounts := xs\<rparr>) = select_investments_by_user uid s"
  by (simp add: select_investments_by_user_def)

lemma upsert_holding_existing:
  assumes "upsert_holding net ss f acc a s = (Purchased, s')"
    and "find (\<lambda>v. iv_asset_id v = asset_id a)
           (select_investments_by_user (ss_user_id ss) s) = Some e"
  shows "s' = logged ss f acc a (incremented e f s)"
  using assms
  by (cases "net 1"; cases "net 2")
     (auto simp: upsert_holding_def get_investments_by_user_def update_investment_def
           set_if_def Let_def incremented_def truthy_def
           split: if_splits dest!: log_transaction_Purchased)

lemma upsert_holding_new:
  assumes "upsert_holding net ss f acc a s = (Purchased, s')"
    and "find (\<lambda>v. iv_asset_id v = asset_id a)
           (select_investments_by_user (ss_user_id ss) s) = None"
  shows "\<exists>p t. p \<in> set (portfolios_df ss) \<and> t \<in> set (asset_types_df ss)
           \<and> s' = logged ss f acc a
                    (s\<lparr>investments := investments s @ [new_holding ss f acc a p t s]\<rparr>)"
proof -
  from assms obtain p t where
    p: "iloc0 (filter (\<lambda>r. Some (portfolio_name r) = new_investment_portfolio_name f)
                 (portfolios_df ss)) = Row p"
    and t: "iloc0 (filter (\<lambda>r. Some (type_name r) = new_investment_asset_category_name f)
                 (asset_types_df ss)) = Row t"
    by (cases "net 1")
       (auto simp: upsert_holding_def get_investments_by_user_def
             split: if_splits pick.splits)
  from iloc0_Row [OF p] have pin: "p \<in> set (portfolios_df ss)" by simp
  from iloc0_Row [OF t] have tin: "t \<in> set (asset_types_df ss)" by simp
  from assms p t have "s' = logged ss f acc a
                    (s\<lparr>investments := investments s @ [new_holding ss f acc a p t s]\<rparr>)"
    by (cases "net 1"; cases "net 2")
       (auto simp: upsert_holding_def get_investments_by_user_def add_investment_def Let_def
             new_holding_def assigned_def
             split: if_splits dest!: log_transaction_Purchased)
  with pin tin show ?thesis by blast
qed

lemma purchase_Purchased:
  assumes "purchase net ss f acc a s = (Purchased, s')"
  shows "upsert_holding net ss f acc a (debited acc a f s) = (Purchased, s')"
  using assms
  by (cases "net 0")
     (auto simp: purchase_def update_account_balance_def debited_def truthy_def
           split: if_splits)

lemma buy_assets_Purchased:
  assumes "buy_assets net ss f s = (Purchased, s')"
  shows "\<exists>acc a. select_account ss f = Row acc \<and> select_asset ss f = Row a
           \<and> purchase net ss f acc a s = (Purchased, s')"
  using assms by (auto simp: buy_assets_def split: if_splits pick.splits)

lemma purchased_store:
  assumes run: "buy_assets net ss f s = (Purchased, s')"
    and acc: "select_account ss f = Row acc" and a: "select_asset ss f = Row a"
  shows "(\<exists>e. find (\<lambda>v. iv_asset_id v = asset_id a)
                (select_investments_by_user (ss_user_id ss) s) = Some e
            \<and> s' = logged ss f acc a (incremented e f (debited acc a f s)))
       \<or> (\<exists>p t. find (\<lambda>v. iv_asset_id v = asset_id a)
                (select_investments_by_user (ss_user_id ss) s) = None
            \<and> s' = logged ss f acc a
                     ((debited acc a f s)\<lparr>investments := investments s @
                         [new_holding ss f acc a p t s]\<rparr>))"
proof -
  from buy_assets_Purchased [OF run] acc a
  have "purchase net ss f acc a s = (Purchased, s')" by auto
  then have up: "upsert_holding net ss f acc a (debited acc a f s) = (Purchased, s')"
    by (rule purchase_Purchased)
  have view: "select_investments_by_user (ss_user_id ss) (debited acc a f s)
                = select_investments_by_user (ss_user_id ss) s"
    by (simp add: debited_def)
  show ?thesis
  proof (cases "find (\<lambda>v. iv_asset_id v = asset_id a)
                (select_investments_by_user (ss_user_id ss) s)")
    case None
    with upsert_holding_new [OF up] view
    show ?thesis by (auto simp: debited_def new_holding_def)
  next
    case (Some e)
    with upsert_holding_existing [OF up] view show ?thesis by auto
  qed
qed

text \<open>The purchase scenario, run with every call answered.\<close>

lemma gold_run:
  "buy_assets all_up gold_session gold_form gold_store
     = (Purchased,
        gold_store\<lparr>accounts := [savings\<lparr>current_balance := 650\<rparr>],
                    investments := [gold_holding\<lparr>quantity := 15\<rparr>],
                    transactions := [gold_purchase]\<rparr>)"
  by (simp add: buy_defs scenario_defs)

lemma buy_assets_page_Purchased:
  assumes "buy_assets_page load net ss f s = (Purchased, s')"
  shows "\<exists>loaded acc a. load_data load (ss_user_id ss) ss s = Returned loaded
           \<and> buy_assets net loaded f s = (Purchased, s')
           \<and> select_account loaded f = Row acc \<and> select_asset loaded f = Row a
           \<and> quantity_to_buy f * unit_price a \<le> current_balance acc
           \<and> acc \<in> set (accounts s) \<and> account_name acc = selected_account_name f
           \<and> a \<in> set (assets s) \<and> asset_name a = selected_asset_name f
           \<and> ss_user_id loaded = ss_user_id ss"
proof -
  from assms obtain loaded where
    loaded: "load_data load (ss_user_id ss) ss s = Returned loaded"
    and run: "buy_assets net loaded f s = (Purchased, s')"
    by (auto simp: buy_assets_page_def split: reply.splits)
  from run obtain acc a where
    sel: "select_account loaded f = Row acc" "select_asset loaded f = Row a"
    and fits: "quantity_to_buy f * unit_price a \<le> current_balance acc"
    by (auto simp: buy_assets_def split: if_splits pick.splits)
  from select_account_Row [OF sel(1)] select_asset_Row [OF sel(2)]
    load_data_tables [OF loaded] loaded run sel fits
  show ?thesis by blast
qed




section \<open>A holding that exists is topped up\<close>

lemma log_transaction_investments:
  "investments (snd (log_transaction net ss f acc a s)) = investments s"
  by (cases "net 3")
     (auto simp: log_transaction_def add_transaction_def Let_def split: if_splits)

lemma upsert_holding_keeps_rows:
  assumes "find (\<lambda>v. iv_asset_id v = asset_id a)
             (select_investments_by_user (ss_user_id ss) s) = Some e"
  shows "map investment_id (investments (snd (upsert_holding net ss f acc a s)))
           = map investment_id (investments s)"
  using assms
  by (cases "net 1"; cases "net 2")
     (auto simp: upsert_holding_def get_investments_by_user_def update_investment_def
           set_if_def Let_def log_transaction_investments update_where_keys truthy_def
           split: if_splits)

lemma purchase_keeps_rows:
  assumes "find (\<lambda>v. iv_asset_id v = asset_id a)
             (select_investments_by_user (ss_user_id ss) s) = Some e"
  shows "map investment_id (investments (snd (purchase net ss f acc a s)))
           = map investment_id (investments s)"
  using assms upsert_holding_keeps_rows [of a ss "s\<lparr>accounts := xs\<rparr>" e net f acc for xs]
  by (cases "net 0")
     (auto simp: purchase_def update_account_balance_def truthy_def split: if_splits)

lemma buy_assets_keeps_rows:
  assumes "select_asset ss f = Row a"
    and "find (\<lambda>v. iv_asset_id v = asset_id a)
             (select_investments_by_user (ss_user_id ss) s) = Some e"
  shows "map investment_id (investments (snd (buy_assets net ss f s)))
           = map investment_id (investments s)"
  using assms purchase_keeps_rows [OF assms(2)]
  by (auto simp: buy_assets_def split: pick.splits)

text \<open>
  Claim C7. Let the read of the user's investments, searched in its order for the
  selected asset, find the row \<open>e\<close> first. Then no run of \<open>buy_assets\<close>, however it ends,
  adds or removes an investment row, and a successful run has rewritten the investments
  with the id of \<open>e\<close>, and no other, to the quantity of \<open>e\<close> plus the quantity bought;
  with distinct investment ids that is the one investment \<open>e\<close> was read from, its
  quantity raised by the quantity bought.
\<close>

theorem held_asset_is_incremented:
  assumes run: "buy_assets net ss f s = (out, s')"
    and a: "select_asset ss f = Row a"
    and held: "find (\<lambda>v. iv_asset_id v = asset_id a)
                 (select_investments_by_user (ss_user_id ss) s) = Some e"
  shows "map investment_id (investments s') = map investment_id (investments s)
       \<and> (out = Purchased \<longrightarrow>
            investments s' =
              update_where (\<lambda>r. investment_id r = iv_investment_id e)
                (\<lambda>r. r\<lparr>quantity := iv_quantity e + quantity_to_buy f\<rparr>) (investments s))
       \<and> (out = Purchased \<longrightarrow> distinct (map investment_id (investments s)) \<longrightarrow>
            investments s' =
              map (\<lambda>r. if investment_id r = iv_investment_id e
                        then r\<lparr>quantity := quantity r + quantity_to_buy f\<rparr> else r)
                (investments s))"
proof (intro conjI impI)
  from buy_assets_keeps_rows [OF a held, of net] run
  show "map investment_id (investments s') = map investment_id (investments s)" by simp
next
  assume "out = Purchased"
  with run have run': "buy_assets net ss f s = (Purchased, s')" by simp
  from buy_assets_Purchased [OF run'] obtain acc where acc: "select_account ss f = Row acc"
    by auto
  from purchased_store [OF run' acc a] held
  have upd: "investments s' =
              update_where (\<lambda>r. investment_id r = iv_investment_id e)
                (\<lambda>r. r\<lparr>quantity := iv_quantity e + quantity_to_buy f\<rparr>) (investments s)"
    by (auto simp: logged_def incremented_def debited_def)
  then show "investments s' =
              update_where (\<lambda>r. investment_id r = iv_investment_id e)
                (\<lambda>r. r\<lparr>quantity := iv_quantity e + quantity_to_buy f\<rparr>) (investments s)" .
  assume keys: "distinct (map investment_id (investments s))"
  from find_SomeD [OF held]
  have "e \<in> set (select_investments_by_user (ss_user_id ss) s)" by simp
  from select_investments_origin [OF this] obtain i where
    i: "i \<in> set (investments s)" "investment_id i = iv_investment_id e"
       "quantity i = iv_quantity e"
    by auto
  have "quantity r = iv_quantity e"
    if "r \<in> set (investments s)" "investment_id r = iv_investment_id e" for r
    using distinct_keyD [OF keys that(1) i(1)] that(2) i(2,3) by simp
  then show "investments s' =
              map (\<lambda>r. if investment_id r = iv_investment_id e
                        then r\<lparr>quantity := quantity r + quantity_to_buy f\<rparr> else r)
                (investments s)"
    unfolding upd by (simp add: update_where_def)
qed

text \<open>In the purchase scenario the holding is found and goes from 10 to 15 grams.\<close>

lemma gold_held:
  "find (\<lambda>v. iv_asset_id v = asset_id gold)
     (select_investments_by_user (ss_user_id gold_session) gold_store)
     = Some (joined_row gold_holding growth commodity gold)"
  by (simp add: select_investments_by_user_def joined_row_def scenario_defs)

theorem held_asset_is_incremented_witness:
  "find (\<lambda>v. iv_asset_id v = asset_id gold)
     (select_investments_by_user (ss_user_id gold_session) gold_store)
     = Some (joined_row gold_holding growth commodity gold)
   \<and> buy_assets all_up gold_session gold_form gold_store
       = (Purchased,
          gold_store\<lparr>accounts := [savings\<lparr>current_balance := 650\<rparr>],
                      investments := [gold_holding\<lparr>quantity := 15\<rparr>],
                      transactions := [gold_purchase]\<rparr>)
   \<and> distinct (map investment_id (investments gold_store))
   \<and> map investment_id
         (investments (gold_store\<lparr>accounts := [savings\<lparr>current_balance := 650\<rparr>],
                      investments := [gold_holding\<lparr>quantity := 15\<rparr>],
                      transactions := [gold_purchase]\<rparr>))
       = map investment_id (investments gold_store)
   \<and> investments (gold_store\<lparr>accounts := [savings\<lparr>current_balance := 650\<rparr>],
                      investments := [gold_holding\<lparr>quantity := 15\<rparr>],
                      transactions := [gold_purchase]\<rparr>)
       = map (\<lambda>r. if investment_id r
                       = iv_investment_id (joined_row gold_holding growth commodity gold)
                   then r\<lparr>quantity := quantity r + quantity_to_buy gold_form\<rparr> else r)
           (investments gold_store)"
proof -
  have keys: "distinct (map investment_id (investments gold_store))"
    by (simp add: scenario_defs)
  from held_asset_is_incremented [OF gold_run gold_selection(2) gold_held] keys
    gold_run gold_held
  show ?thesis by blast
qed

section \<open>Where the balance and the price come from\<close>

text \<open>
  Claim C8. A run of the page reads the accounts and the assets from the store before
  it checks and uses them, and nothing of the tables an earlier run left in the session
  enters:
  \<^item> the run is the same whatever tables the session held when it started;
  \<^item> when the run ends with the insufficient-balance error, the amounts of the error
    are those of a stored account and a stored asset with the names selected, the cost
    at the stored unit price being greater than the stored balance;
  \<^item> when the run ends with the purchase made, the cost that passed the check, the
    balance written and the amount and unit price of the transaction logged are
    computed from the stored balance and the stored unit price of such rows.
\<close>

theorem buy_page_reads_the_store:
  "buy_assets_page load net
       (ss\<lparr>accounts_df := xs, portfolios_df := ps, asset_types_df := ts, assets_df := ys\<rparr>)
       f s
     = buy_assets_page load net ss f s
   \<and> (buy_assets_page load net ss f s = (Insufficient_Balance required available, s') \<longrightarrow>
        (\<exists>acc\<in>set (accounts s). \<exists>a\<in>set (assets s).
            account_name acc = selected_account_name f
          \<and> asset_name a = selected_asset_name f
          \<and> current_balance acc < quantity_to_buy f * unit_price a
          \<and> required = cents (quantity_to_buy f * unit_price a)
          \<and> available = cents (current_balance acc)))
   \<and> (buy_assets_page load net ss f s = (Purchased, s') \<longrightarrow>
        (\<exists>acc\<in>set (accounts s). \<exists>a\<in>set (assets s).
            account_name acc = selected_account_name f
          \<and> asset_name a = selected_asset_name f
          \<and> quantity_to_buy f * unit_price a \<le> current_balance acc
          \<and> (\<forall>r\<in>set (accounts s'). account_id r = account_id acc \<longrightarrow>
                current_balance r
                  = current_balance acc - quantity_to_buy f * unit_price a)
          \<and> (\<exists>t. transactions s' = transactions s @ [t]
                \<and> amount t = Some (quantity_to_buy f * unit_price a)
                \<and> unit_price_at_transaction t = Some (unit_price a))))"
proof (intro conjI impI)
  show "buy_assets_page load net
       (ss\<lparr>accounts_df := xs, portfolios_df := ps, asset_types_df := ts, assets_df := ys\<rparr>)
       f s
     = buy_assets_page load net ss f s"
    by (simp add: buy_assets_page_def load_data_overwrites)
next
  assume "buy_assets_page load net ss f s = (Insufficient_Balance required available, s')"
  then obtain loaded where
    loaded: "load_data load (ss_user_id ss) ss s = Returned loaded"
    and run: "buy_assets net loaded f s = (Insufficient_Balance required available, s')"
    by (auto simp: buy_assets_page_def split: reply.splits)
  from buy_assets_Insufficient [OF run] obtain acc a where
    sel: "select_account loaded f = Row acc" "select_asset loaded f = Row a"
    and rest: "current_balance acc < quantity_to_buy f * unit_price a"
      "required = cents (quantity_to_buy f * unit_price a)"
      "available = cents (current_balance acc)"
    by blast
  from select_account_Row [OF sel(1)] select_asset_Row [OF sel(2)]
    load_data_tables [OF loaded] rest
  show "\<exists>acc\<in>set (accounts s). \<exists>a\<in>set (assets s).
            account_name acc = selected_account_name f
          \<and> asset_name a = selected_asset_name f
          \<and> current_balance acc < quantity_to_buy f * unit_price a
          \<and> required = cents (quantity_to_buy f * unit_price a)
          \<and> available = cents (current_balance acc)"
    by blast
next
  assume run: "buy_assets_page load net ss f s = (Purchased, s')"
  from buy_assets_page_Purchased [OF run] obtain loaded acc a where
    buy: "buy_assets net loaded f s = (Purchased, s')"
    and acc: "select_account loaded f = Row acc" and a: "select_asset loaded f = Row a"
    and fits: "quantity_to_buy f * unit_price a \<le> current_balance acc"
    and stored: "acc \<in> set (accounts s)" "a \<in> set (assets s)"
    and names: "account_name acc = selected_account_name f"
      "asset_name a = selected_asset_name f"
    by blast
  note cases = purchased_store [OF buy acc a]
  then have written: "\<forall>r\<in>set (accounts s'). account_id r = account_id acc \<longrightarrow>
               current_balance r = current_balance acc - quantity_to_buy f * unit_price a"
    by (auto simp: logged_def incremented_def debited_def update_where_def)
  from cases have logged: "\<exists>t. transactions s' = transactions s @ [t]
                 \<and> amount t = Some (quantity_to_buy f * unit_price a)
                 \<and> unit_price_at_transaction t = Some (unit_price a)"
    by (auto simp: logged_def incremented_def debited_def buy_row_def)
  from stored names fits written logged
  show "\<exists>acc\<in>set (accounts s). \<exists>a\<in>set (assets s).
            account_name acc = selected_account_name f
          \<and> asset_name a = selected_asset_name f
          \<and> quantity_to_buy f * unit_price a \<le> current_balance acc
          \<and> (\<forall>r\<in>set (accounts s'). account_id r = account_id acc \<longrightarrow>
                current_balance r
                  = current_balance acc - quantity_to_buy f * unit_price a)
          \<and> (\<exists>t. transactions s' = transactions s @ [t]
                \<and> amount t = Some (quantity_to_buy f * unit_price a)
                \<and> unit_price_at_transaction t = Some (unit_price a))"
    by blast
qed

text \<open>
  The session of the purchase scenario still holds gold at 70.00 when the price has
  been set to 75.00 in the store. The next run reads 75.00: the 5 grams cost 375.00,
  the balance becomes 625.00 and the transaction is logged at 75.00.
\<close>

lemma repriced_loaded:
  "load_data all_up (ss_user_id gold_session) gold_session repriced_store
     = Returned (gold_session\<lparr>assets_df := [gold\<lparr>unit_price := 75\<rparr>]\<rparr>)"
  by (simp add: load_data_def get_account_balances_df_def get_portfolios_df_def
        get_asset_types_df_def get_assets_df_def data_frame_def get_accounts_by_user_def
        get_all_accounts_def get_portfolios_by_user_def get_asset_types_def
        get_all_assets_def scenario_defs)

lemma repriced_page_run:
  "buy_assets_page all_up all_up gold_session gold_form repriced_store
     = (Purchased,
        repriced_store\<lparr>accounts := [savings\<lparr>current_balance := 625\<rparr>],
                        investments := [gold_holding\<lparr>quantity := 15\<rparr>],
                        transactions :=
                          [gold_purchase\<lparr>amount := Some 375,
                                         unit_price_at_transaction := Some 75\<rparr>]\<rparr>)"
proof -
  have "buy_assets_page all_up all_up gold_session gold_form repriced_store
          = buy_assets all_up (gold_session\<lparr>assets_df := [gold\<lparr>unit_price := 75\<rparr>]\<rparr>)
              gold_form repriced_store"
    by (simp add: buy_assets_page_def repriced_loaded)
  also have "\<dots> = (Purchased,
        repriced_store\<lparr>accounts := [savings\<lparr>current_balance := 625\<rparr>],
                        investments := [gold_holding\<lparr>quantity := 15\<rparr>],
                        transactions :=
                          [gold_purchase\<lparr>amount := Some 375,
                                         unit_price_at_transaction := Some 75\<rparr>]\<rparr>)"
    by (simp add: buy_defs scenario_defs)
  finally show ?thesis .
qed

lemma wallet_page_run:
  "buy_assets_page all_up all_up wallet_session wallet_form wallet_store
     = (Insufficient_Balance 150 100, wallet_store)"
proof -
  have "buy_assets_page all_up all_up wallet_session wallet_form wallet_store
          = buy_assets all_up wallet_session wallet_form wallet_store"
    by (simp add: buy_assets_page_def wallet_loaded)
  also have "\<dots> = (Insufficient_Balance (cents 150) (cents 100), wallet_store)"
    by (simp add: buy_assets_def select_account_def select_asset_def iloc0_def
          scenario_defs)
  finally show ?thesis by (simp add: cents_examples)
qed

theorem buy_page_reads_the_store_witness:
  "update_asset_price Up 1 75 gold_store = (Returned (Some True), repriced_store)
   \<and> map unit_price (assets_df gold_session) = [70]
   \<and> buy_assets_page all_up all_up gold_session gold_form repriced_store
       = (Purchased,
          repriced_store\<lparr>accounts := [savings\<lparr>current_balance := 625\<rparr>],
                          investments := [gold_holding\<lparr>quantity := 15\<rparr>],
                          transactions :=
                            [gold_purchase\<lparr>amount := Some 375,
                                           unit_price_at_transaction := Some 75\<rparr>]\<rparr>)
   \<and> (\<exists>acc\<in>set (accounts repriced_store). \<exists>a\<in>set (assets repriced_store).
          unit_price a = 75
        \<and> (\<exists>t. transactions
                  (repriced_store\<lparr>accounts := [savings\<lparr>current_balance := 625\<rparr>],
                          investments := [gold_holding\<lparr>quantity := 15\<rparr>],
                          transactions :=
                            [gold_purchase\<lparr>amount := Some 375,
                                           unit_price_at_transaction := Some 75\<rparr>]\<rparr>)
                  = transactions repriced_store @ [t]
              \<and> amount t = Some (quantity_to_buy gold_form * unit_price a)
              \<and> unit_price_at_transaction t = Some (unit_price a)))
   \<and> buy_assets_page all_up all_up wallet_session wallet_form wallet_store
       = (Insufficient_Balance 150 100, wallet_store)
   \<and> (\<exists>acc\<in>set (accounts wallet_store). \<exists>a\<in>set (assets wallet_store).
          (150 :: decimal) = cents (quantity_to_buy wallet_form * unit_price a)
        \<and> (100 :: decimal) = cents (current_balance acc))"
proof -
  have prices: "\<And>a. a \<in> set (assets repriced_store) \<Longrightarrow> unit_price a = 75"
    "map unit_price (assets_df gold_session) = [70]"
    by (simp_all add: scenario_defs)
  from buy_page_reads_the_store
         [where load = all_up and net = all_up and ss = gold_session and f = gold_form
            and s = repriced_store]
       repriced_page_run
  have "\<exists>acc\<in>set (accounts repriced_store). \<exists>a\<in>set (assets repriced_store).
          (\<exists>t. transactions
                  (repriced_store\<lparr>accounts := [savings\<lparr>current_balance := 625\<rparr>],
                          investments := [gold_holding\<lparr>quantity := 15\<rparr>],
                          transactions :=
                            [gold_purchase\<lparr>amount := Some 375,
                                           unit_price_at_transaction := Some 75\<rparr>]\<rparr>)
                  = transactions repriced_store @ [t]
              \<and> amount t = Some (quantity_to_buy gold_form * unit_price a)
              \<and> unit_price_at_transaction t = Some (unit_price a))"
    by blast
  with prices(1)
  have bought: "\<exists>acc\<in>set (accounts repriced_store). \<exists>a\<in>set (assets repriced_store).
          unit_price a = 75
        \<and> (\<exists>t. transactions
                  (repriced_store\<lparr>accounts := [savings\<lparr>current_balance := 625\<rparr>],
                          investments := [gold_holding\<lparr>quantity := 15\<rparr>],
                          transactions :=
                            [gold_purchase\<lparr>amount := Some 375,
                                           unit_price_at_transaction := Some 75\<rparr>]\<rparr>)
                  = transactions repriced_store @ [t]
              \<and> amount t = Some (quantity_to_buy gold_form * unit_price a)
              \<and> unit_price_at_transaction t = Some (unit_price a))"
    by blast
  from buy_page_reads_the_store
         [where load = all_up and net = all_up and ss = wallet_session and f = wallet_form
            and s = wallet_store and required = 150 and available = 100
            and s' = wallet_store]
       wallet_page_run
  have refused: "\<exists>acc\<in>set (accounts wallet_store). \<exists>a\<in>set (assets wallet_store).
          (150 :: decimal) = cents (quantity_to_buy wallet_form * unit_price a)
        \<and> (100 :: decimal) = cents (current_balance acc)"
    by blast
  from bought refused repriced_page_run wallet_page_run gold_reads(2) prices(2)
  show ?thesis by blast
qed

section \<open>Failures after the debit\<close>

text \<open>
  Claim C1 does not hold of the code. Each write of \<open>buy_assets\<close> is a call of
  \<^verbatim>\<open>execute_query\<close> that commits on its own, and the handlers of the \<^verbatim>\<open>try\<close> block only
  report. In the purchase scenario, let the update of the holding raise: the run ends
  with the database error, the account is debited from 1000.00 to 650.00, the holding
  is still 10 grams and no transaction is logged.
\<close>

theorem failed_upsert_keeps_the_debit:
  "buy_assets upsert_raises gold_session gold_form gold_store
     = (Database_Error, gold_store\<lparr>accounts := [savings\<lparr>current_balance := 650\<rparr>]\<rparr>)
   \<and> map current_balance (accounts gold_store) = [1000]
   \<and> map quantity (investments gold_store) = [10]
   \<and> transactions gold_store = []"
  by (simp add: buy_defs scenario_defs)

text \<open>
  Claim C2 does not hold of the code. The portfolio and the category of a new holding
  are looked at in step 2, after the debit of step 1 was committed. A user without a
  portfolio who buys an asset not yet held is told to select a portfolio and a category,
  and the account is debited from 1000.00 to 650.00 with no holding and no transaction
  written.
\<close>

theorem unresolved_portfolio_keeps_the_debit:
  "buy_assets all_up newcomer_session newcomer_form newcomer_store
     = (Select_Portfolio_And_Category,
        newcomer_store\<lparr>accounts := [savings\<lparr>current_balance := 650\<rparr>]\<rparr>)
   \<and> map current_balance (accounts newcomer_store) = [1000]
   \<and> investments newcomer_store = []
   \<and> portfolios_df newcomer_session = []"
  by (simp add: buy_defs scenario_defs)

end
